theory Spec2Isabelle
  imports Complex_Main
begin

section \<open>PerformanceMonitor: data model\<close>

text \<open>
  The monitor of \<^verbatim>\<open>PerformanceMonitor.js\<close> is a class with mutable fields; it is
  modelled as a record that every method takes and returns.  Clock readings
  (\<^verbatim>\<open>performance.now()\<close>, milliseconds) are rationals handed to the method
  that reads the clock.  FPS samples are the integers \<^verbatim>\<open>Math.round\<close> produces.
  Quality tiers and device types stay the strings the code compares.
\<close>

record quality_settings =
  particles :: nat
  shadows :: bool
  antialias :: bool

text \<open>
  The value of a property read \<^verbatim>\<open>this.qualityLevels[key]\<close>: one of the three own
  entries, a member inherited from \<^verbatim>\<open>Object.prototype\<close> (a function or object,
  hence truthy), or \<^verbatim>\<open>undefined\<close>.
\<close>

datatype prop_value = Settings quality_settings | Inherited | Undefined

record options =
  targetFPS :: "string \<Rightarrow> rat option"
  performanceThreshold :: rat
  qualityAdjustmentDelay :: rat

record options_arg =
  arg_targetFPS :: "(string \<Rightarrow> rat option) option"
  arg_performanceThreshold :: "rat option"
  arg_qualityAdjustmentDelay :: "rat option"

record monitor =
  options :: options
  frameCount :: nat
  lastTime :: rat
  currentFPS :: int
  fpsHistory :: "int list"
  maxHistoryLength :: nat
  currentQuality :: string
  deviceType :: string
  webGLSupported :: bool
  reducedMotionPreferred :: bool
  lastQualityAdjustment :: rat
  performanceWarningCount :: nat
  initStartTime :: rat
  firstFrameTime :: "rat option"
  qualityChangeEvents :: "string list"

text \<open>
  What the constructor reads from the host: the user-agent string, the viewport
  width, the outcome of the WebGL probe, and the reduced-motion media query
  (\<open>None\<close> when \<^verbatim>\<open>window.matchMedia\<close> is missing).
\<close>

record env =
  userAgent :: string
  innerWidth :: int
  webGLProbe :: bool
  matchMedia :: "bool option"

section \<open>Device classification\<close>

text \<open>
  \<^verbatim>\<open>String.prototype.toLowerCase\<close> on the characters an Isabelle string holds:
  the ASCII capitals and the Latin-1 capitals move by 32, everything else stays.
\<close>

definition lower_char :: "char \<Rightarrow> char" where
  "lower_char c =
     (let n = (of_char c :: nat)
      in if (65 \<le> n \<and> n \<le> 90) \<or> (192 \<le> n \<and> n \<le> 222 \<and> n \<noteq> 215)
         then char_of (n + 32) else c)"

definition toLowerCase :: "string \<Rightarrow> string" where
  "toLowerCase s = map lower_char s"

definition starts_with :: "string \<Rightarrow> string \<Rightarrow> bool" where
  "starts_with p s = (take (length p) s = p)"

text \<open>All suffixes of a string, one per position at which a match may start.\<close>

fun suffixes_of :: "string \<Rightarrow> string list" where
  "suffixes_of [] = [[]]"
| "suffixes_of (c # cs) = (c # cs) # suffixes_of cs"

text \<open>\<^verbatim>\<open>/p1|p2|.../.test(s)\<close> for literal alternatives: some alternative occurs in \<open>s\<close>.\<close>

definition test_any :: "string list \<Rightarrow> string \<Rightarrow> bool" where
  "test_any ps s = list_ex (\<lambda>t. list_ex (\<lambda>p. starts_with p t) ps) (suffixes_of s)"

text \<open>The dot of a regular expression matches every character but a line terminator.\<close>

definition line_terminator :: "char \<Rightarrow> bool" where
  "line_terminator c = (c = CHR 0x0A \<or> c = CHR 0x0D)"

text \<open>\<^verbatim>\<open>.*mobile\<close> matched at the start of \<open>t\<close>.\<close>

fun dot_star_mobile :: "string \<Rightarrow> bool" where
  "dot_star_mobile [] = False"
| "dot_star_mobile (c # cs) =
     (starts_with ''mobile'' (c # cs) \<or> (\<not> line_terminator c \<and> dot_star_mobile cs))"

text \<open>\<^verbatim>\<open>/ipad|android(?!.*mobile)/.test(s)\<close>.\<close>

definition test_tablet :: "string \<Rightarrow> bool" where
  "test_tablet s =
     list_ex (\<lambda>t. starts_with ''ipad'' t \<or>
                   (starts_with ''android'' t \<and> \<not> dot_star_mobile (drop 7 t)))
       (suffixes_of s)"

definition mobile_words :: "string list" where
  "mobile_words =
     [''android'', ''webos'', ''iphone'', ''ipad'', ''ipod'', ''blackberry'', ''iemobile'',
      ''opera mini'']"

definition PerformanceMonitor_detectDeviceType :: "string \<Rightarrow> int \<Rightarrow> string" where
  "PerformanceMonitor_detectDeviceType ua width =
     (let userAgent = toLowerCase ua;
          isMobile = test_any mobile_words userAgent;
          isTablet = (test_tablet userAgent \<or> (width \<ge> 768 \<and> width \<le> 1024))
      in if isMobile \<and> \<not> isTablet then ''mobile''
         else if isTablet then ''tablet''
         else ''desktop'')"

definition AnimationManager_detectDeviceType :: "string \<Rightarrow> int \<Rightarrow> string" where
  "AnimationManager_detectDeviceType ua width =
     (let userAgent = toLowerCase ua;
          isMobile = test_any mobile_words userAgent;
          isTablet = (test_tablet userAgent \<or> (width \<ge> 768 \<and> width \<le> 1024))
      in if isMobile \<and> \<not> isTablet then ''mobile''
         else if isTablet then ''tablet''
         else ''desktop'')"

section \<open>PerformanceMonitor: operations\<close>

definition default_targetFPS :: "string \<Rightarrow> rat option" where
  "default_targetFPS d =
     (if d = ''desktop'' then Some 60
      else if d = ''tablet'' then Some 45
      else if d = ''mobile'' then Some 30
      else None)"

definition default_options :: options where
  "default_options =
     \<lparr> targetFPS = default_targetFPS,
       performanceThreshold = 4 / 5,
       qualityAdjustmentDelay = 2000 \<rparr>"

text \<open>The spread \<^verbatim>\<open>{ ...defaults, ...options }\<close>: a given key replaces the default.\<close>

definition merge_options :: "options_arg \<Rightarrow> options" where
  "merge_options a =
     \<lparr> targetFPS = (case arg_targetFPS a of None \<Rightarrow> default_targetFPS | Some t \<Rightarrow> t),
       performanceThreshold =
         (case arg_performanceThreshold a of None \<Rightarrow> 4 / 5 | Some p \<Rightarrow> p),
       qualityAdjustmentDelay =
         (case arg_qualityAdjustmentDelay a of None \<Rightarrow> 2000 | Some d \<Rightarrow> d) \<rparr>"

definition no_options :: options_arg where
  "no_options =
     \<lparr> arg_targetFPS = None, arg_performanceThreshold = None,
       arg_qualityAdjustmentDelay = None \<rparr>"

text \<open>The names every plain object inherits from \<^verbatim>\<open>Object.prototype\<close>.\<close>

definition object_prototype_keys :: "string list" where
  "object_prototype_keys =
     [''constructor'', ''hasOwnProperty'', ''isPrototypeOf'', ''propertyIsEnumerable'',
      ''toLocaleString'', ''toString'', ''valueOf'', ''__proto__'',
      ''__defineGetter__'', ''__defineSetter__'', ''__lookupGetter__'', ''__lookupSetter__'']"

definition qualityLevels :: "string \<Rightarrow> prop_value" where
  "qualityLevels key =
     (if key = ''high'' then Settings \<lparr> particles = 2000, shadows = True, antialias = True \<rparr>
      else if key = ''medium'' then Settings \<lparr> particles = 1000, shadows = False, antialias = True \<rparr>
      else if key = ''low'' then Settings \<lparr> particles = 500, shadows = False, antialias = False \<rparr>
      else if key \<in> set object_prototype_keys then Inherited
      else Undefined)"

definition truthy :: "prop_value \<Rightarrow> bool" where
  "truthy p = (p \<noteq> Undefined)"

definition detectReducedMotionPreference :: "env \<Rightarrow> bool" where
  "detectReducedMotionPreference e = (case matchMedia e of None \<Rightarrow> False | Some m \<Rightarrow> m)"

definition setInitialQuality :: "monitor \<Rightarrow> monitor" where
  "setInitialQuality s =
     (if \<not> webGLSupported s then s\<lparr>currentQuality := ''disabled''\<rparr>
      else if reducedMotionPreferred s then s\<lparr>currentQuality := ''disabled''\<rparr>
      else if deviceType s = ''mobile'' then s\<lparr>currentQuality := ''low''\<rparr>
      else if deviceType s = ''tablet'' then s\<lparr>currentQuality := ''medium''\<rparr>
      else s\<lparr>currentQuality := ''high''\<rparr>)"

text \<open>
  The constructor.  \<open>t0\<close> and \<open>t1\<close> are its two clock readings
  (\<^verbatim>\<open>lastTime\<close> and \<^verbatim>\<open>initStartTime\<close>).
\<close>

definition new_PerformanceMonitor :: "options_arg \<Rightarrow> env \<Rightarrow> rat \<Rightarrow> rat \<Rightarrow> monitor" where
  "new_PerformanceMonitor a e t0 t1 =
     setInitialQuality
       \<lparr> options = merge_options a,
         frameCount = 0,
         lastTime = t0,
         currentFPS = 60,
         fpsHistory = [],
         maxHistoryLength = 60,
         currentQuality = ''high'',
         deviceType = PerformanceMonitor_detectDeviceType (userAgent e) (innerWidth e),
         webGLSupported = webGLProbe e,
         reducedMotionPreferred = detectReducedMotionPreference e,
         lastQualityAdjustment = 0,
         performanceWarningCount = 0,
         initStartTime = t1,
         firstFrameTime = None,
         qualityChangeEvents = [] \<rparr>"

text \<open>
  \<^verbatim>\<open>getQualitySettings\<close>: the lookup falls back to the \<^verbatim>\<open>low\<close> entry when the
  property read is falsy.
\<close>

definition getQualitySettings :: "monitor \<Rightarrow> prop_value" where
  "getQualitySettings s =
     (if currentQuality s = ''disabled''
      then Settings \<lparr> particles = 0, shadows = False, antialias = False \<rparr>
      else if truthy (qualityLevels (currentQuality s)) then qualityLevels (currentQuality s)
      else qualityLevels ''low'')"

text \<open>
  \<^verbatim>\<open>emitQualityChange\<close> dispatches an event carrying the current tier; the model
  appends the tier to the log of dispatched events.
\<close>

definition emitQualityChange :: "monitor \<Rightarrow> monitor" where
  "emitQualityChange s = s\<lparr>qualityChangeEvents := qualityChangeEvents s @ [currentQuality s]\<rparr>"

text \<open>\<^verbatim>\<open>Array.prototype.indexOf\<close>: the first position of the element, or \<open>-1\<close>.\<close>

fun indexOf :: "'a list \<Rightarrow> 'a \<Rightarrow> int" where
  "indexOf [] x = -1"
| "indexOf (y # ys) x = (if y = x then 0 else (let i = indexOf ys x in if i < 0 then -1 else i + 1))"

definition qualityOrder :: "string list" where
  "qualityOrder = [''high'', ''medium'', ''low'']"

definition reduceQuality :: "monitor \<Rightarrow> monitor" where
  "reduceQuality s =
     (let currentIndex = indexOf qualityOrder (currentQuality s)
      in if currentIndex < int (length qualityOrder) - 1
         then emitQualityChange (s\<lparr>currentQuality := qualityOrder ! nat (currentIndex + 1)\<rparr>)
         else s)"

text \<open>
  A comparison with a threshold that may be \<^verbatim>\<open>NaN\<close> (\<open>None\<close>: the product of
  \<^verbatim>\<open>undefined\<close> and a number): every comparison with \<^verbatim>\<open>NaN\<close> is false.
\<close>

definition js_less :: "rat \<Rightarrow> rat option \<Rightarrow> bool" where
  "js_less a b = (case b of None \<Rightarrow> False | Some t \<Rightarrow> a < t)"

text \<open>\<^verbatim>\<open>arr.slice(-5)\<close>: the last five elements, or all of them when there are fewer.\<close>

definition slice_last5 :: "int list \<Rightarrow> int list" where
  "slice_last5 h = drop (length h - 5) h"

text \<open>
  In the check below the threshold \<^verbatim>\<open>targetFPS * performanceThreshold\<close>, the average
  and the clock difference are exact rationals where the code computes doubles.  With
  the default options the products \<open>60 * 0.8\<close>, \<open>45 * 0.8\<close> and \<open>30 * 0.8\<close> are the
  doubles 48, 36 and 24 and the comparison of the average of five integers with them
  is exact; for other options the double product can differ from the rational one.
\<close>

definition checkPerformanceThreshold :: "rat \<Rightarrow> monitor \<Rightarrow> monitor" where
  "checkPerformanceThreshold now s =
     (if currentQuality s = ''disabled'' \<or> currentQuality s = ''low'' then s
      else
        let threshold =
              map_option (\<lambda>t. t * performanceThreshold (options s))
                (targetFPS (options s) (deviceType s))
        in if now - lastQualityAdjustment s < qualityAdjustmentDelay (options s) then s
           else if length (fpsHistory s) \<ge> 5 then
             let recentFPS = slice_last5 (fpsHistory s);
                 averageFPS = of_int (sum_list recentFPS) / of_nat (length recentFPS)
             in if js_less averageFPS threshold then
                  let s1 = s\<lparr>performanceWarningCount := performanceWarningCount s + 1\<rparr>
                  in if performanceWarningCount s1 \<ge> 3
                     then (reduceQuality s1)
                            \<lparr>performanceWarningCount := 0, lastQualityAdjustment := now\<rparr>
                     else s1
                else s\<lparr>performanceWarningCount := 0\<rparr>
           else s)"

text \<open>\<^verbatim>\<open>Math.round\<close>: the nearest integer, halves upwards.\<close>

definition math_round :: "rat \<Rightarrow> int" where
  "math_round x = \<lfloor>x + 1 / 2\<rfloor>"

text \<open>
  \<^verbatim>\<open>updateMetrics\<close> reads the clock once (\<open>now\<close>); the check it calls once a
  second reads it again (\<open>now'\<close>).  The quotient handed to \<^verbatim>\<open>Math.round\<close> is the
  exact rational; the code rounds it to a double first, so a quotient within a
  rounding error of a half can give a sample that differs by one.  The rule that
  follows does not depend on how a sample came about.
\<close>

definition updateMetrics :: "rat \<Rightarrow> rat \<Rightarrow> monitor \<Rightarrow> monitor" where
  "updateMetrics now now' s =
     (let s1 = s\<lparr>firstFrameTime :=
                   (if firstFrameTime s = None then Some now else firstFrameTime s),
                 frameCount := frameCount s + 1\<rparr>;
          timeDelta = now - lastTime s1
      in if timeDelta \<ge> 1000 then
           let fps = math_round (of_nat (frameCount s1) * 1000 / timeDelta);
               pushed = fpsHistory s1 @ [fps];
               s2 = s1\<lparr>currentFPS := fps, frameCount := 0, lastTime := now,
                       fpsHistory :=
                         (if length pushed > maxHistoryLength s1 then tl pushed else pushed)\<rparr>
           in checkPerformanceThreshold now' s2
         else s1)"

definition onReducedMotionChange :: "bool \<Rightarrow> monitor \<Rightarrow> monitor" where
  "onReducedMotionChange matches s =
     (let s1 = s\<lparr>reducedMotionPreferred := matches\<rparr>
      in emitQualityChange
           (if reducedMotionPreferred s1 then s1\<lparr>currentQuality := ''disabled''\<rparr>
            else setInitialQuality s1))"

definition setQuality :: "string \<Rightarrow> monitor \<Rightarrow> monitor" where
  "setQuality quality s =
     (if quality = ''disabled'' \<or> truthy (qualityLevels quality)
      then emitQualityChange (s\<lparr>currentQuality := quality\<rparr>)
      else s)"

section \<open>Sessions of a monitor\<close>

text \<open>
  What happens to a monitor during a session: a frame (\<^verbatim>\<open>updateMetrics\<close>, with the
  two clock readings it makes), a direct performance check, a notification of the
  reduced-motion media query, and a manual override of the tier.
\<close>

datatype event =
    UpdateMetrics rat rat
  | CheckPerformanceThreshold rat
  | ReducedMotionChange bool
  | SetQuality string

fun step :: "event \<Rightarrow> monitor \<Rightarrow> monitor" where
  "step (UpdateMetrics now now') s = updateMetrics now now' s"
| "step (CheckPerformanceThreshold now) s = checkPerformanceThreshold now s"
| "step (ReducedMotionChange matches) s = onReducedMotionChange matches s"
| "step (SetQuality quality) s = setQuality quality s"

fun run :: "event list \<Rightarrow> monitor \<Rightarrow> monitor" where
  "run [] s = s"
| "run (e # es) s = run es (step e s)"

text \<open>
  The two states \<^verbatim>\<open>updateMetrics\<close> passes through: after counting the frame, and
  (once a second has gone by) after recording the FPS sample, which is the state the
  performance check then sees.
\<close>

definition counted :: "rat \<Rightarrow> monitor \<Rightarrow> monitor" where
  "counted now s =
     s\<lparr>firstFrameTime := (if firstFrameTime s = None then Some now else firstFrameTime s),
       frameCount := frameCount s + 1\<rparr>"

definition sampled :: "rat \<Rightarrow> monitor \<Rightarrow> monitor" where
  "sampled now s =
     (let s1 = counted now s;
          fps = math_round (of_nat (frameCount s1) * 1000 / (now - lastTime s1));
          pushed = fpsHistory s1 @ [fps]
      in s1\<lparr>currentFPS := fps, frameCount := 0, lastTime := now,
             fpsHistory := (if length pushed > maxHistoryLength s1 then tl pushed else pushed)\<rparr>)"

text \<open>The four tiers, and their order high > medium > low > disabled.\<close>

definition valid_quality :: "string \<Rightarrow> bool" where
  "valid_quality q = (q = ''high'' \<or> q = ''medium'' \<or> q = ''low'' \<or> q = ''disabled'')"

definition quality_rank :: "string \<Rightarrow> nat" where
  "quality_rank q =
     (if q = ''high'' then 3 else if q = ''medium'' then 2 else if q = ''low'' then 1 else 0)"

text \<open>
  The steps that happen by themselves and cannot raise the tier: frames, checks,
  and notifications that the reduced-motion preference is on.
\<close>

fun lowering :: "event \<Rightarrow> bool" where
  "lowering (UpdateMetrics now now') = True"
| "lowering (CheckPerformanceThreshold now) = True"
| "lowering (ReducedMotionChange matches) = matches"
| "lowering (SetQuality quality) = False"

text \<open>Hosts used to run the constructor on concrete inputs.\<close>

definition desktop_env :: env where
  "desktop_env =
     \<lparr> userAgent = ''Mozilla/5.0 (X11; Linux x86_64)'', innerWidth = 1920,
       webGLProbe = True, matchMedia = Some False \<rparr>"

definition no_webgl_env :: env where
  "no_webgl_env = desktop_env\<lparr>webGLProbe := False\<rparr>"

definition reduced_motion_env :: env where
  "reduced_motion_env = desktop_env\<lparr>matchMedia := Some True\<rparr>"

definition tablet_env :: env where
  "tablet_env = desktop_env\<lparr>userAgent := ''Mozilla/5.0 (iPad; CPU OS 16_0)''\<rparr>"

definition phone_env :: env where
  "phone_env = desktop_env\<lparr>userAgent := ''Mozilla/5.0 (Linux; Android 13) Mobile'', innerWidth := 412\<rparr>"

text \<open>The \<^verbatim>\<open>particles\<close> entry of a settings object.\<close>

definition particle_count :: "prop_value \<Rightarrow> nat" where
  "particle_count p = (case p of Settings q \<Rightarrow> particles q | Inherited \<Rightarrow> 0 | Undefined \<Rightarrow> 0)"

section \<open>Performance checks, as the specification words them\<close>

text \<open>
  What one performance check finds.  It is \<open>Skipped\<close> when the tier is already
  \<^verbatim>\<open>low\<close> or \<^verbatim>\<open>disabled\<close>, when fewer than 2 seconds have passed since the last
  quality adjustment, or when there are not yet 5 one-second samples.  Otherwise it is
  \<open>Bad\<close> when the average of the last 5 samples is below 80% of the device's target
  FPS, and \<open>Good\<close> when it is not.
\<close>

datatype verdict = Skipped | Good | Bad

definition rolling_average :: "int list \<Rightarrow> rat" where
  "rolling_average h = of_int (sum_list (drop (length h - 5) h)) / 5"

definition device_threshold :: "string \<Rightarrow> rat option" where
  "device_threshold d = map_option (\<lambda>t. 4 / 5 * t) (default_targetFPS d)"

definition check_verdict :: "rat \<Rightarrow> monitor \<Rightarrow> verdict" where
  "check_verdict now s =
     (if currentQuality s = ''disabled'' \<or> currentQuality s = ''low'' then Skipped
      else if now - lastQualityAdjustment s < 2000 then Skipped
      else if length (fpsHistory s) < 5 then Skipped
      else if js_less (rolling_average (fpsHistory s)) (device_threshold (deviceType s)) then Bad
      else Good)"

text \<open>
  The verdict of the check an event performs: a frame performs one only when a second
  has gone by since the last sample, on the history with the new sample; a
  notification or an override performs none.
\<close>

fun event_verdict :: "event \<Rightarrow> monitor \<Rightarrow> verdict" where
  "event_verdict (UpdateMetrics now now') s =
     (if now - lastTime s \<ge> 1000 then check_verdict now' (sampled now s) else Skipped)"
| "event_verdict (CheckPerformanceThreshold now) s = check_verdict now s"
| "event_verdict (ReducedMotionChange matches) s = Skipped"
| "event_verdict (SetQuality quality) s = Skipped"

fun verdicts :: "event list \<Rightarrow> monitor \<Rightarrow> verdict list" where
  "verdicts [] s = []"
| "verdicts (e # es) s = event_verdict e s # verdicts es (step e s)"

text \<open>
  The length of the unbroken run of \<open>Bad\<close> checks at the end of a session; skipped
  checks neither count nor break the run.
\<close>

definition streak :: "verdict list \<Rightarrow> nat" where
  "streak vs = length (takeWhile (\<lambda>v. v = Bad) (rev (filter (\<lambda>v. v \<noteq> Skipped) vs)))"

text \<open>One step down the order high, medium, low.\<close>

definition next_lower :: "string \<Rightarrow> string" where
  "next_lower q = (if q = ''high'' then ''medium'' else if q = ''medium'' then ''low'' else q)"

text \<open>A session of slow frames: one frame a second for \<open>n\<close> seconds, starting at \<open>t\<close>.\<close>

fun slow_frames :: "nat \<Rightarrow> rat \<Rightarrow> event list" where
  "slow_frames 0 t = []"
| "slow_frames (Suc n) t = UpdateMetrics (t + 1000) (t + 1000) # slow_frames n (t + 1000)"

section \<open>ParticleSystem\<close>

text \<open>
  A JavaScript number: a finite value, an infinity (\<open>Inf True\<close> is the positive one) or
  \<^verbatim>\<open>NaN\<close>.  Finite arithmetic is exact: the rounding of doubles and of the
  \<^verbatim>\<open>Float32Array\<close> stores, overflow and the sign of zero are not modelled.
\<close>

datatype jsnum = Num real | Inf bool | NaN

fun js_add :: "jsnum \<Rightarrow> jsnum \<Rightarrow> jsnum" where
  "js_add NaN b = NaN"
| "js_add a NaN = NaN"
| "js_add (Num a) (Num b) = Num (a + b)"
| "js_add (Num a) (Inf s) = Inf s"
| "js_add (Inf s) (Num b) = Inf s"
| "js_add (Inf s) (Inf s') = (if s = s' then Inf s else NaN)"

fun js_neg :: "jsnum \<Rightarrow> jsnum" where
  "js_neg NaN = NaN"
| "js_neg (Num a) = Num (- a)"
| "js_neg (Inf s) = Inf (\<not> s)"

definition js_sub :: "jsnum \<Rightarrow> jsnum \<Rightarrow> jsnum" where
  "js_sub a b = js_add a (js_neg b)"

fun js_mul :: "jsnum \<Rightarrow> jsnum \<Rightarrow> jsnum" where
  "js_mul NaN b = NaN"
| "js_mul a NaN = NaN"
| "js_mul (Num a) (Num b) = Num (a * b)"
| "js_mul (Num a) (Inf s) = (if a = 0 then NaN else Inf (s = (a > 0)))"
| "js_mul (Inf s) (Num b) = (if b = 0 then NaN else Inf (s = (b > 0)))"
| "js_mul (Inf s) (Inf s') = Inf (s = s')"

text \<open>Division: \<open>0 / 0\<close> is \<^verbatim>\<open>NaN\<close>, any other finite value over zero is an infinity.\<close>

fun js_div :: "jsnum \<Rightarrow> jsnum \<Rightarrow> jsnum" where
  "js_div NaN b = NaN"
| "js_div a NaN = NaN"
| "js_div (Num a) (Num b) =
     (if b = 0 then (if a = 0 then NaN else Inf (a > 0)) else Num (a / b))"
| "js_div (Num a) (Inf s) = Num 0"
| "js_div (Inf s) (Num b) = Inf (s = (b \<ge> 0))"
| "js_div (Inf s) (Inf s') = NaN"

fun js_sqrt :: "jsnum \<Rightarrow> jsnum" where
  "js_sqrt NaN = NaN"
| "js_sqrt (Num a) = (if a < 0 then NaN else Num (sqrt a))"
| "js_sqrt (Inf s) = (if s then Inf True else NaN)"

text \<open>\<^verbatim>\<open>a < b\<close>; every comparison with \<^verbatim>\<open>NaN\<close> is false.\<close>

fun js_lt :: "jsnum \<Rightarrow> jsnum \<Rightarrow> bool" where
  "js_lt NaN b = False"
| "js_lt a NaN = False"
| "js_lt (Num a) (Num b) = (a < b)"
| "js_lt (Num a) (Inf s) = s"
| "js_lt (Inf s) (Num b) = (\<not> s)"
| "js_lt (Inf s) (Inf s') = (\<not> s \<and> s')"

record particle_config =
  particleCount :: nat
  size_min :: real
  size_max :: real
  speed_min :: real
  speed_max :: real
  mouseInfluence :: real

text \<open>
  \<^verbatim>\<open>getDeviceConfig\<close> is the lookup \<^verbatim>\<open>configs[deviceType] || configs.desktop\<close> in a
  plain object with the own entries \<^verbatim>\<open>desktop\<close>, \<^verbatim>\<open>tablet\<close> and \<^verbatim>\<open>mobile\<close>.  A name
  inherited from \<^verbatim>\<open>Object.prototype\<close> yields the inherited member, which is truthy and
  has none of the entries: its \<^verbatim>\<open>particleCount\<close> is \<^verbatim>\<open>undefined\<close>, so the arrays
  have length 0 and no loop over the particles runs (\<^verbatim>\<open>i < undefined\<close> is false);
  the model gives it a count of 0, and its other entries are never read.  Every other
  name falls back to the desktop entry.
\<close>

definition inherited_config :: particle_config where
  "inherited_config =
     \<lparr> particleCount = 0, size_min = 0, size_max = 0,
       speed_min = 0, speed_max = 0, mouseInfluence = 0 \<rparr>"

definition getDeviceConfig :: "string \<Rightarrow> particle_config" where
  "getDeviceConfig d =
     (if d = ''tablet'' then
        \<lparr> particleCount = 1000, size_min = 1, size_max = 5 / 2,
          speed_min = 1 / 1000, speed_max = 25 / 10000, mouseInfluence = 8 / 100 \<rparr>
      else if d = ''mobile'' then
        \<lparr> particleCount = 500, size_min = 8 / 10, size_max = 2,
          speed_min = 8 / 10000, speed_max = 2 / 1000, mouseInfluence = 5 / 100 \<rparr>
      else if d \<in> set object_prototype_keys then inherited_config
      else
        \<lparr> particleCount = 2000, size_min = 1, size_max = 3,
          speed_min = 1 / 1000, speed_max = 3 / 1000, mouseInfluence = 1 / 10 \<rparr>)"

text \<open>
  The particle system: its configuration, the clock it accumulates, the mouse position,
  and the two flat arrays \<^verbatim>\<open>update\<close> works on (three entries per particle).
  \<^verbatim>\<open>positions\<close> is \<open>None\<close> once the system is disposed.  The colour and size arrays
  are left out: \<^verbatim>\<open>update\<close> does not read them.
\<close>

record particle_system =
  config :: particle_config
  time :: jsnum
  mousePosition :: "jsnum \<times> jsnum"
  positions :: "jsnum list option"
  velocities :: "jsnum list"
  geometry :: bool
  needsUpdate :: bool

text \<open>
  \<^verbatim>\<open>createParticleData\<close>.  \<open>draws k\<close> is the result of the \<open>k\<close>-th call of
  \<^verbatim>\<open>Math.random()\<close>; each particle makes eight calls, in the order x, y, z, three
  velocity components, colour, size.  The arrays hold the exact values where the
  \<^verbatim>\<open>Float32Array\<close> of the code holds the nearest single-precision number; a draw of
  \<open>0.5\<close> gives \<open>0\<close> in both.
\<close>

definition initial_positions :: "particle_config \<Rightarrow> (nat \<Rightarrow> real) \<Rightarrow> jsnum list" where
  "initial_positions cfg draws =
     concat (map (\<lambda>i. [Num ((draws (8 * i) - 1 / 2) * 20),
                        Num ((draws (8 * i + 1) - 1 / 2) * 20),
                        Num ((draws (8 * i + 2) - 1 / 2) * 10)])
               [0..<particleCount cfg])"

definition initial_velocities :: "particle_config \<Rightarrow> (nat \<Rightarrow> real) \<Rightarrow> jsnum list" where
  "initial_velocities cfg draws =
     concat (map (\<lambda>i. [Num ((draws (8 * i + 3) - 1 / 2) * speed_max cfg),
                        Num ((draws (8 * i + 4) - 1 / 2) * speed_max cfg),
                        Num ((draws (8 * i + 5) - 1 / 2) * speed_max cfg)])
               [0..<particleCount cfg])"

definition new_ParticleSystem :: "string \<Rightarrow> (nat \<Rightarrow> real) \<Rightarrow> particle_system" where
  "new_ParticleSystem d draws =
     \<lparr> config = getDeviceConfig d,
       time = Num 0,
       mousePosition = (Num 0, Num 0),
       positions = Some (initial_positions (getDeviceConfig d) draws),
       velocities = initial_velocities (getDeviceConfig d) draws,
       geometry = True,
       needsUpdate = False \<rparr>"

text \<open>
  Reading a typed array outside its range yields \<^verbatim>\<open>undefined\<close>, which is \<^verbatim>\<open>NaN\<close> in
  arithmetic; writing outside its range does nothing, as \<open>xs[i := v]\<close> does.
\<close>

definition read :: "jsnum list \<Rightarrow> nat \<Rightarrow> jsnum" where
  "read xs i = (if i < length xs then xs ! i else NaN)"

text \<open>The three steps of the loop body of \<^verbatim>\<open>update\<close>, for the particle at offset \<open>i3\<close>.\<close>

definition floating_movement :: "jsnum list \<Rightarrow> nat \<Rightarrow> jsnum list \<Rightarrow> jsnum list" where
  "floating_movement vel i3 p =
     (let p1 = p[i3 := js_add (read p i3) (read vel i3)];
          p2 = p1[i3 + 1 := js_add (read p1 (i3 + 1)) (read vel (i3 + 1))]
      in p2[i3 + 2 := js_add (read p2 (i3 + 2)) (read vel (i3 + 2))])"

text \<open>The distance of the particle from the mouse, the divisor of the repulsion.\<close>

definition mouse_offset :: "jsnum \<times> jsnum \<Rightarrow> nat \<Rightarrow> jsnum list \<Rightarrow> jsnum \<times> jsnum" where
  "mouse_offset mouse i3 p =
     (let mouseX = js_mul (fst mouse) (Num 10);
          mouseY = js_mul (snd mouse) (Num 10)
      in (js_sub (read p i3) mouseX, js_sub (read p (i3 + 1)) mouseY))"

definition mouse_distance :: "jsnum \<times> jsnum \<Rightarrow> nat \<Rightarrow> jsnum list \<Rightarrow> jsnum" where
  "mouse_distance mouse i3 p =
     (let (dx, dy) = mouse_offset mouse i3 p
      in js_sqrt (js_add (js_mul dx dx) (js_mul dy dy)))"

definition mouse_interaction ::
  "real \<Rightarrow> jsnum \<times> jsnum \<Rightarrow> nat \<Rightarrow> jsnum list \<Rightarrow> jsnum list" where
  "mouse_interaction influence mouse i3 p =
     (let (dx, dy) = mouse_offset mouse i3 p;
          distance = mouse_distance mouse i3 p
      in if js_lt distance (Num 3) then
           let force = js_mul (js_sub (Num 3) distance) (Num influence);
               p1 = p[i3 := js_add (read p i3) (js_mul (js_div dx distance) force)]
           in p1[i3 + 1 := js_add (read p1 (i3 + 1)) (js_mul (js_div dy distance) force)]
         else p)"

definition boundary_wrapping :: "nat \<Rightarrow> jsnum list \<Rightarrow> jsnum list" where
  "boundary_wrapping i3 p =
     (let p1 = (if js_lt (Num 10) (read p i3) then p[i3 := Num (- 10)] else p);
          p2 = (if js_lt (read p1 i3) (Num (- 10)) then p1[i3 := Num 10] else p1);
          p3 = (if js_lt (Num 10) (read p2 (i3 + 1)) then p2[i3 + 1 := Num (- 10)] else p2);
          p4 = (if js_lt (read p3 (i3 + 1)) (Num (- 10)) then p3[i3 + 1 := Num 10] else p3);
          p5 = (if js_lt (Num 5) (read p4 (i3 + 2)) then p4[i3 + 2 := Num (- 5)] else p4)
      in if js_lt (read p5 (i3 + 2)) (Num (- 5)) then p5[i3 + 2 := Num 5] else p5)"

definition update_particle :: "particle_system \<Rightarrow> nat \<Rightarrow> jsnum list \<Rightarrow> jsnum list" where
  "update_particle s i p =
     (let i3 = i * 3
      in boundary_wrapping i3
           (mouse_interaction (mouseInfluence (config s)) (mousePosition s) i3
              (floating_movement (velocities s) i3 p)))"

text \<open>\<^verbatim>\<open>update(deltaTime)\<close>: the loop over the particles is a fold over their indices.\<close>

definition update :: "jsnum \<Rightarrow> particle_system \<Rightarrow> particle_system" where
  "update deltaTime s =
     (case positions s of
        None \<Rightarrow> s
      | Some p \<Rightarrow>
          if \<not> geometry s then s
          else s\<lparr>time := js_add (time s) deltaTime,
                 positions := Some (fold (update_particle s) [0..<particleCount (config s)] p),
                 needsUpdate := True\<rparr>)"

text \<open>
  A coordinate that passes the bound checks of the test suite:
  \<^verbatim>\<open>lo \<le> v\<close> and \<^verbatim>\<open>v \<le> hi\<close>, which \<^verbatim>\<open>NaN\<close> fails.
\<close>

definition in_range :: "real \<Rightarrow> real \<Rightarrow> jsnum \<Rightarrow> bool" where
  "in_range lo hi v = (case v of Num a \<Rightarrow> lo \<le> a \<and> a \<le> hi | Inf s \<Rightarrow> False | NaN \<Rightarrow> False)"

definition within_bounds :: "jsnum list \<Rightarrow> nat \<Rightarrow> bool" where
  "within_bounds p i =
     (in_range (- 10) 10 (read p (i * 3)) \<and> in_range (- 10) 10 (read p (i * 3 + 1))
      \<and> in_range (- 5) 5 (read p (i * 3 + 2)))"

definition finite_num :: "jsnum \<Rightarrow> bool" where
  "finite_num v = (case v of Num a \<Rightarrow> True | Inf s \<Rightarrow> False | NaN \<Rightarrow> False)"

text \<open>The \<^verbatim>\<open>positions\<close> array of a live system; empty once it is disposed.\<close>

definition positions_of :: "particle_system \<Rightarrow> jsnum list" where
  "positions_of s = (case positions s of None \<Rightarrow> [] | Some p \<Rightarrow> p)"

text \<open>
  Random draws that put the first particle at the centre of the scene with no velocity
  (its six draws are \<open>0.5\<close>) and every other particle elsewhere.
\<close>

definition centre_draws :: "nat \<Rightarrow> real" where
  "centre_draws k = (if k < 8 then 1 / 2 else 1 / 4)"

section \<open>AnimationManager\<close>

text \<open>
  The coordinator.  The scene, camera and renderer of the 3D library, the interactive
  elements and the content animations are collaborators: the model records whether
  each is present.  The monitor and the particle system are the models above.
  \<open>manager_frameCount\<close>, \<open>manager_lastTime\<close> and \<open>fps\<close> are the legacy counters, and
  \<open>manager_deviceType\<close> is the field \<^verbatim>\<open>deviceType\<close>.
\<close>

record manager =
  canvas :: bool
  enablePerformanceMonitoring :: bool
  scene :: bool
  camera :: bool
  renderer :: bool
  isInitialized :: bool
  isRunning :: bool
  animationId :: "nat option"
  particleSystem :: "particle_system option"
  interactiveElements :: bool
  performanceMonitor :: "monitor option"
  contentAnimations :: bool
  manager_frameCount :: nat
  manager_lastTime :: rat
  fps :: int
  manager_deviceType :: string

definition new_AnimationManager :: "bool \<Rightarrow> bool \<Rightarrow> env \<Rightarrow> rat \<Rightarrow> manager" where
  "new_AnimationManager cv monitoring e t =
     \<lparr> canvas = cv,
       enablePerformanceMonitoring = monitoring,
       scene = False, camera = False, renderer = False,
       isInitialized = False,
       isRunning = False,
       animationId = None,
       particleSystem = None,
       interactiveElements = False,
       performanceMonitor = None,
       contentAnimations = False,
       manager_frameCount = 0,
       manager_lastTime = t,
       fps = 60,
       manager_deviceType = AnimationManager_detectDeviceType (userAgent e) (innerWidth e) \<rparr>"

definition shouldEnableAnimations :: "monitor \<Rightarrow> bool" where
  "shouldEnableAnimations s =
     (webGLSupported s \<and> \<not> reducedMotionPreferred s \<and> currentQuality s \<noteq> ''disabled'')"

text \<open>
  What \<^verbatim>\<open>init\<close> meets: the host the monitor probes and its two clock readings, whether
  creating the WebGL renderer throws, the random draws of the particle system
  (\<open>None\<close> when its constructor throws), and whether the constructors of the
  interactive elements and of the content animations throw (a throw of the content
  animations' own \<^verbatim>\<open>init\<close> comes after their field is assigned and is caught).
\<close>

record init_env =
  host :: env
  init_clock :: "rat \<times> rat"
  renderer_throws :: bool
  particle_draws :: "(nat \<Rightarrow> real) option"
  interactive_throws :: bool
  content_throws :: bool

text \<open>
  \<^verbatim>\<open>init\<close> returns whether it succeeded.  A throw of the renderer is caught by the
  outer handler (result \<^verbatim>\<open>false\<close>, the fields assigned so far stay); a throw of one
  of the three components is caught by its own handler and leaves its field as it was.
\<close>

definition init :: "init_env \<Rightarrow> manager \<Rightarrow> bool \<times> manager" where
  "init ie m =
     (let pm = new_PerformanceMonitor
                 (no_options\<lparr>arg_targetFPS := Some default_targetFPS\<rparr>)
                 (host ie) (fst (init_clock ie)) (snd (init_clock ie));
          m1 = m\<lparr>performanceMonitor := Some pm\<rparr>
      in if \<not> shouldEnableAnimations pm then (False, m1)
         else
           let m2 = m1\<lparr>scene := True, camera := True\<rparr>
           in if renderer_throws ie then (False, m2)
              else
                let m3 = m2\<lparr>renderer := True\<rparr>;
                    m4 = (case particle_draws ie of
                            None \<Rightarrow> m3
                          | Some d \<Rightarrow>
                              m3\<lparr>particleSystem :=
                                   Some (new_ParticleSystem (manager_deviceType m3) d)\<rparr>);
                    m5 = (if interactive_throws ie then m4 else m4\<lparr>interactiveElements := True\<rparr>);
                    m6 = (if content_throws ie then m5 else m5\<lparr>contentAnimations := True\<rparr>)
                in (True, m6\<lparr>isInitialized := True\<rparr>))"

text \<open>
  What one run of \<^verbatim>\<open>animate\<close> meets: the id \<^verbatim>\<open>requestAnimationFrame\<close> returns, the
  clock reading of the frame, the two readings of the monitor, the reading of the
  legacy counter, and whether the update of the interactive elements or the rendering
  throws.
\<close>

record frame =
  request_id :: nat
  frame_clock :: rat
  monitor_clock :: "rat \<times> rat"
  legacy_clock :: rat
  interactive_update_throws :: bool
  render_throws :: bool

definition updatePerformanceMetrics :: "rat \<Rightarrow> manager \<Rightarrow> manager" where
  "updatePerformanceMetrics currentTime m =
     (let m1 = m\<lparr>manager_frameCount := manager_frameCount m + 1\<rparr>
      in if currentTime - manager_lastTime m1 \<ge> 1000
         then m1\<lparr>fps := math_round (of_nat (manager_frameCount m1) * 1000
                                        / (currentTime - manager_lastTime m1)),
                  manager_frameCount := 0,
                  manager_lastTime := currentTime\<rparr>
         else m1)"

text \<open>
  \<^verbatim>\<open>animate\<close> returns whether it ran to its end (\<open>False\<close>: an exception left it); the
  fields assigned before the exception stay.
\<close>

definition animate :: "frame \<Rightarrow> manager \<Rightarrow> bool \<times> manager" where
  "animate f m =
     (if \<not> isRunning m then (True, m)
      else
        let m1 = m\<lparr>animationId := Some (request_id f)\<rparr>;
            deltaTime = (frame_clock f - manager_lastTime m1) / 1000;
            m2 = m1\<lparr>particleSystem :=
                      map_option (update (Num (of_rat deltaTime))) (particleSystem m1)\<rparr>
        in if interactiveElements m2 \<and> interactive_update_throws f then (False, m2)
           else
             let m3 = (case performanceMonitor m2 of
                         Some pm \<Rightarrow>
                           m2\<lparr>performanceMonitor :=
                                Some (updateMetrics (fst (monitor_clock f))
                                        (snd (monitor_clock f)) pm)\<rparr>
                       | None \<Rightarrow>
                           if enablePerformanceMonitoring m2
                           then updatePerformanceMetrics (legacy_clock f) m2 else m2)
             in if \<not> renderer m3 \<or> render_throws f then (False, m3) else (True, m3))"

text \<open>The result of a call: a returned value, or an exception that left the method.\<close>

datatype 'a outcome = Returned 'a | Thrown

definition start :: "frame \<Rightarrow> manager \<Rightarrow> bool outcome \<times> manager" where
  "start f m =
     (if \<not> isInitialized m then (Returned False, m)
      else if isRunning m then (Returned True, m)
      else
        let r = animate f (m\<lparr>isRunning := True\<rparr>)
        in if fst r then (Returned True, snd r) else (Thrown, snd r))"

definition stop :: "manager \<Rightarrow> manager" where
  "stop m =
     (let m1 = (case animationId m of
                  None \<Rightarrow> m
                | Some n \<Rightarrow> if n \<noteq> 0 then m\<lparr>animationId := None\<rparr> else m)
      in m1\<lparr>isRunning := False\<rparr>)"

definition dispose :: "manager \<Rightarrow> manager" where
  "dispose m =
     (stop m)
       \<lparr>performanceMonitor := None, particleSystem := None, interactiveElements := False,
        contentAnimations := False, scene := False, camera := False, renderer := False,
        isInitialized := False\<rparr>"

text \<open>The managers a program can get to through the constructor and the methods.\<close>

inductive reachable :: "manager \<Rightarrow> bool" where
  constructed: "reachable (new_AnimationManager cv monitoring e t)"
| after_init: "reachable m \<Longrightarrow> reachable (snd (init ie m))"
| after_start: "reachable m \<Longrightarrow> reachable (snd (start f m))"
| after_animate: "reachable m \<Longrightarrow> reachable (snd (animate f m))"
| after_stop: "reachable m \<Longrightarrow> reachable (stop m)"
| after_dispose: "reachable m \<Longrightarrow> reachable (dispose m)"

text \<open>A frame and a host for \<^verbatim>\<open>init\<close> used to run the manager on concrete inputs.\<close>

definition first_frame :: frame where
  "first_frame =
     \<lparr> request_id = 1, frame_clock = 16, monitor_clock = (16, 16), legacy_clock = 16,
       interactive_update_throws = False, render_throws = False \<rparr>"

definition desktop_init :: init_env where
  "desktop_init =
     \<lparr> host = desktop_env, init_clock = (0, 0), renderer_throws = False,
       particle_draws = None, interactive_throws = False, content_throws = False \<rparr>"

section \<open>Quality settings\<close>

text \<open>
  C6.  \<^verbatim>\<open>getQualitySettings\<close> yields 2000 particles with shadows and anti-aliasing
  for \<^verbatim>\<open>high\<close>, 1000 without shadows for \<^verbatim>\<open>medium\<close>, 500 with neither for
  \<^verbatim>\<open>low\<close> and 0 with neither for \<^verbatim>\<open>disabled\<close>, whatever the rest of the monitor's
  state; so the particle count falls strictly along high, medium, low, disabled.
\<close>

theorem getQualitySettings_table:
  "getQualitySettings (s\<lparr>currentQuality := ''high''\<rparr>)
     = Settings \<lparr> particles = 2000, shadows = True, antialias = True \<rparr>
   \<and> getQualitySettings (s\<lparr>currentQuality := ''medium''\<rparr>)
     = Settings \<lparr> particles = 1000, shadows = False, antialias = True \<rparr>
   \<and> getQualitySettings (s\<lparr>currentQuality := ''low''\<rparr>)
     = Settings \<lparr> particles = 500, shadows = False, antialias = False \<rparr>
   \<and> getQualitySettings (s\<lparr>currentQuality := ''disabled''\<rparr>)
     = Settings \<lparr> particles = 0, shadows = False, antialias = False \<rparr>
   \<and> sorted_wrt (>)
        (map (\<lambda>q. particle_count (getQualitySettings (s\<lparr>currentQuality := q\<rparr>)))
           [''high'', ''medium'', ''low'', ''disabled''])"
  by (simp add: getQualitySettings_def qualityLevels_def truthy_def particle_count_def)

section \<open>Tier transitions\<close>

lemma reduceQuality_currentQuality:
  "currentQuality (reduceQuality s) =
     (if currentQuality s = ''high'' then ''medium''
      else if currentQuality s = ''medium'' then ''low''
      else if currentQuality s = ''low'' then ''low''
      else ''high'')"
  by (simp add: reduceQuality_def qualityOrder_def emitQualityChange_def Let_def)

lemma checkPerformanceThreshold_currentQuality:
  "currentQuality (checkPerformanceThreshold now s) = currentQuality s
   \<or> (currentQuality s = ''high'' \<and> currentQuality (checkPerformanceThreshold now s) = ''medium'')
   \<or> (currentQuality s = ''medium'' \<and> currentQuality (checkPerformanceThreshold now s) = ''low'')
   \<or> (\<not> valid_quality (currentQuality s) \<and> currentQuality (checkPerformanceThreshold now s) = ''high'')"
  by (simp add: checkPerformanceThreshold_def Let_def reduceQuality_currentQuality valid_quality_def)

lemma updateMetrics_unfold:
  "updateMetrics now now' s =
     (if now - lastTime s \<ge> 1000 then checkPerformanceThreshold now' (sampled now s)
      else counted now s)"
  by (simp add: updateMetrics_def sampled_def counted_def Let_def)

lemma sampled_fields:
  "currentQuality (sampled now s) = currentQuality s"
  "options (sampled now s) = options s"
  "deviceType (sampled now s) = deviceType s"
  "performanceWarningCount (sampled now s) = performanceWarningCount s"
  "lastQualityAdjustment (sampled now s) = lastQualityAdjustment s"
  "webGLSupported (sampled now s) = webGLSupported s"
  by (simp_all add: sampled_def counted_def Let_def)

lemma counted_fields:
  "currentQuality (counted now s) = currentQuality s"
  "options (counted now s) = options s"
  "deviceType (counted now s) = deviceType s"
  "performanceWarningCount (counted now s) = performanceWarningCount s"
  "lastQualityAdjustment (counted now s) = lastQualityAdjustment s"
  "webGLSupported (counted now s) = webGLSupported s"
  by (simp_all add: counted_def)

lemma lowering_step:
  "valid_quality (currentQuality s) \<Longrightarrow> lowering e \<Longrightarrow>
   valid_quality (currentQuality (step e s)) \<and>
   quality_rank (currentQuality (step e s)) \<le> quality_rank (currentQuality s)"
proof (cases e)
  case (UpdateMetrics now now')
  assume v: "valid_quality (currentQuality s)"
  show ?thesis
    using v checkPerformanceThreshold_currentQuality [of now' "sampled now s"] UpdateMetrics
    by (auto simp: valid_quality_def quality_rank_def updateMetrics_unfold sampled_fields
        counted_fields)
next
  case (CheckPerformanceThreshold now)
  assume v: "valid_quality (currentQuality s)"
  show ?thesis
    using v checkPerformanceThreshold_currentQuality [of now s] CheckPerformanceThreshold
    by (auto simp: valid_quality_def quality_rank_def)
next
  case (ReducedMotionChange m)
  assume "lowering e"
  then show ?thesis using ReducedMotionChange
    by (simp add: onReducedMotionChange_def emitQualityChange_def valid_quality_def
        quality_rank_def)
next
  case (SetQuality q)
  assume "lowering e"
  then show ?thesis using SetQuality by simp
qed

lemma run_append: "run (es1 @ es2) s = run es2 (run es1 s)"
  by (induction es1 arbitrary: s) simp_all

lemma lowering_run_valid:
  "valid_quality (currentQuality s) \<Longrightarrow> list_all lowering evs \<Longrightarrow>
   valid_quality (currentQuality (run evs s))"
  by (induction evs arbitrary: s) (simp_all add: lowering_step)

lemma lowering_run_rank:
  assumes "valid_quality (currentQuality s)" and "list_all lowering evs"
  shows "quality_rank (currentQuality (run evs s)) \<le> quality_rank (currentQuality s)"
  using assms
proof (induction evs arbitrary: s)
  case Nil
  then show ?case by simp
next
  case (Cons e es)
  have st: "valid_quality (currentQuality (step e s))"
    "quality_rank (currentQuality (step e s)) \<le> quality_rank (currentQuality s)"
    using lowering_step [of s e] Cons.prems by simp_all
  have "quality_rank (currentQuality (run es (step e s)))
          \<le> quality_rank (currentQuality (step e s))"
    using Cons.IH [of "step e s"] st(1) Cons.prems(2) by simp
  then show ?case using st(2) by simp
qed

text \<open>
  C2, as stated, fails.  On a desktop with WebGL, a notification that the
  reduced-motion preference is on disables the animations, and the notification that
  it is off again puts the tier back to \<^verbatim>\<open>high\<close>: the tier rises within the session.
\<close>

theorem notification_off_raises_tier:
  "quality_rank (currentQuality
      (run [ReducedMotionChange True, ReducedMotionChange False]
         (new_PerformanceMonitor no_options desktop_env 0 0)))
   > quality_rank (currentQuality
      (run [ReducedMotionChange True] (new_PerformanceMonitor no_options desktop_env 0 0)))"
  by code_simp

text \<open>
  C2, amended.  Along every sequence of frames (\<^verbatim>\<open>updateMetrics\<close>), performance
  checks and notifications that the reduced-motion preference is on, starting from one
  of the four tiers, the tier never rises in the order high > medium > low > disabled:
  after any further steps of that kind it is at most what it was.
\<close>

theorem tier_never_rises_by_itself:
  assumes "valid_quality (currentQuality s)" and "list_all lowering (es1 @ es2)"
  shows "quality_rank (currentQuality (run (es1 @ es2) s))
           \<le> quality_rank (currentQuality (run es1 s))"
proof -
  have "valid_quality (currentQuality (run es1 s))"
    using assms lowering_run_valid [of s es1] by simp
  then show ?thesis
    using lowering_run_rank [of "run es1 s" es2] assms(2)
    by (simp add: run_append)
qed

theorem tier_never_rises_by_itself_witness:
  "quality_rank (currentQuality
      (run ([UpdateMetrics 1000 1001, ReducedMotionChange True] @ [CheckPerformanceThreshold 3000])
         (new_PerformanceMonitor no_options desktop_env 0 0)))
   \<le> quality_rank (currentQuality
      (run [UpdateMetrics 1000 1001, ReducedMotionChange True]
         (new_PerformanceMonitor no_options desktop_env 0 0)))"
proof -
  have h1: "valid_quality (currentQuality (new_PerformanceMonitor no_options desktop_env 0 0))"
    by code_simp
  have h2: "list_all lowering
      ([UpdateMetrics 1000 1001, ReducedMotionChange True] @ [CheckPerformanceThreshold 3000])"
    by simp
  show ?thesis by (rule tier_never_rises_by_itself [OF h1 h2])
qed

text \<open>
  C3.  The tier becomes \<^verbatim>\<open>disabled\<close> in one step, not through the downgrade path:
  \<^verbatim>\<open>setInitialQuality\<close> yields it when WebGL is unsupported or reduced motion is
  preferred, so does the constructor when the WebGL probe fails or the media query
  matches, and so does a notification that the preference is on.
\<close>

theorem disabled_at_once:
  "(\<not> webGLSupported s \<or> reducedMotionPreferred s \<longrightarrow>
      currentQuality (setInitialQuality s) = ''disabled'')
   \<and> (\<not> webGLProbe e \<or> detectReducedMotionPreference e \<longrightarrow>
      currentQuality (new_PerformanceMonitor a e t0 t1) = ''disabled'')
   \<and> currentQuality (onReducedMotionChange True s) = ''disabled''"
  by (simp add: setInitialQuality_def new_PerformanceMonitor_def onReducedMotionChange_def
      emitQualityChange_def)

theorem disabled_at_once_witness:
  "currentQuality (setInitialQuality
      ((new_PerformanceMonitor no_options desktop_env 0 0)\<lparr>webGLSupported := False\<rparr>))
     = ''disabled''
   \<and> currentQuality (new_PerformanceMonitor no_options reduced_motion_env 0 0) = ''disabled''
   \<and> currentQuality (new_PerformanceMonitor no_options no_webgl_env 0 0) = ''disabled''
   \<and> currentQuality (onReducedMotionChange True
        (new_PerformanceMonitor no_options desktop_env 0 0)) = ''disabled''"
proof -
  have h1: "\<not> webGLSupported
      ((new_PerformanceMonitor no_options desktop_env 0 0)\<lparr>webGLSupported := False\<rparr>)"
    by simp
  have h2: "detectReducedMotionPreference reduced_motion_env"
    by (simp add: detectReducedMotionPreference_def reduced_motion_env_def)
  have h3: "\<not> webGLProbe no_webgl_env"
    by (simp add: no_webgl_env_def)
  show ?thesis
    using h1 h2 h3
      disabled_at_once
        [of "(new_PerformanceMonitor no_options desktop_env 0 0)\<lparr>webGLSupported := False\<rparr>"
            reduced_motion_env no_options 0 0]
      disabled_at_once
        [of "new_PerformanceMonitor no_options desktop_env 0 0" no_webgl_env no_options 0 0]
    by blast
qed

text \<open>
  C4, as stated, fails.  On a desktop whose WebGL probe failed, the notification that
  reduced motion is off leaves the tier \<^verbatim>\<open>disabled\<close>, not \<^verbatim>\<open>high\<close>:
  \<^verbatim>\<open>setInitialQuality\<close> checks WebGL support before the device type.
\<close>

theorem notification_off_without_webgl:
  "deviceType (new_PerformanceMonitor no_options no_webgl_env 0 0) = ''desktop''
   \<and> currentQuality (onReducedMotionChange False
        (new_PerformanceMonitor no_options no_webgl_env 0 0)) = ''disabled''"
  by code_simp

text \<open>
  C4, amended.  While the tier is \<^verbatim>\<open>disabled\<close>, a frame leaves it \<^verbatim>\<open>disabled\<close> and a
  performance check changes nothing at all.  A notification that reduced motion is off
  recomputes the tier: \<^verbatim>\<open>disabled\<close> when WebGL is unsupported, otherwise \<^verbatim>\<open>low\<close> on
  a mobile, \<^verbatim>\<open>medium\<close> on a tablet and \<^verbatim>\<open>high\<close> on a desktop.
\<close>

theorem disabled_until_notification:
  "(currentQuality s = ''disabled'' \<longrightarrow>
      currentQuality (updateMetrics now now' s) = ''disabled''
      \<and> checkPerformanceThreshold now s = s)
   \<and> currentQuality (onReducedMotionChange False s) =
       (if \<not> webGLSupported s then ''disabled''
        else if deviceType s = ''mobile'' then ''low''
        else if deviceType s = ''tablet'' then ''medium''
        else ''high'')"
  by (simp add: updateMetrics_unfold sampled_fields counted_fields checkPerformanceThreshold_def
      onReducedMotionChange_def setInitialQuality_def emitQualityChange_def)

theorem disabled_until_notification_witness:
  "currentQuality (updateMetrics 1000 1001
      (new_PerformanceMonitor no_options reduced_motion_env 0 0)) = ''disabled''
   \<and> checkPerformanceThreshold 1000 (new_PerformanceMonitor no_options reduced_motion_env 0 0)
       = new_PerformanceMonitor no_options reduced_motion_env 0 0
   \<and> currentQuality (onReducedMotionChange False
        (new_PerformanceMonitor no_options reduced_motion_env 0 0)) = ''high''"
proof -
  have h: "currentQuality (new_PerformanceMonitor no_options reduced_motion_env 0 0) = ''disabled''"
    by code_simp
  have w: "webGLSupported (new_PerformanceMonitor no_options reduced_motion_env 0 0)"
    by code_simp
  have d: "deviceType (new_PerformanceMonitor no_options reduced_motion_env 0 0) = ''desktop''"
    by code_simp
  show ?thesis
    using h w d
      disabled_until_notification
        [of "new_PerformanceMonitor no_options reduced_motion_env 0 0" 1000 1001]
    by simp
qed

text \<open>
  C5.  The constructor, frames, checks, \<^verbatim>\<open>reduceQuality\<close> and notifications keep the
  tier among the four names.
\<close>

lemma valid_quality_kept:
  "valid_quality (currentQuality (new_PerformanceMonitor a e t0 t1))"
  "valid_quality (currentQuality s) \<Longrightarrow> valid_quality (currentQuality (updateMetrics now now' s))"
  "valid_quality (currentQuality s) \<Longrightarrow> valid_quality (currentQuality (checkPerformanceThreshold now s))"
  "valid_quality (currentQuality (reduceQuality s))"
  "valid_quality (currentQuality (onReducedMotionChange m s))"
proof -
  show "valid_quality (currentQuality (new_PerformanceMonitor a e t0 t1))"
    by (simp add: new_PerformanceMonitor_def setInitialQuality_def valid_quality_def)
  show "valid_quality (currentQuality (reduceQuality s))"
    by (simp add: reduceQuality_currentQuality valid_quality_def)
  show "valid_quality (currentQuality (onReducedMotionChange m s))"
    by (simp add: onReducedMotionChange_def setInitialQuality_def emitQualityChange_def
        valid_quality_def Let_def)
  show "valid_quality (currentQuality s) \<Longrightarrow>
        valid_quality (currentQuality (checkPerformanceThreshold now s))"
    using checkPerformanceThreshold_currentQuality [of now s]
    by (auto simp: valid_quality_def)
  show "valid_quality (currentQuality s) \<Longrightarrow>
        valid_quality (currentQuality (updateMetrics now now' s))"
    using checkPerformanceThreshold_currentQuality [of now' "sampled now s"]
    by (auto simp: valid_quality_def updateMetrics_unfold sampled_fields counted_fields)
qed

text \<open>
  C5 on the code: \<^verbatim>\<open>setQuality\<close> does not keep it.  Its guard reads
  \<^verbatim>\<open>this.qualityLevels[quality]\<close>, which is truthy for every name a plain object
  inherits, so \<^verbatim>\<open>setQuality('constructor')\<close> on a fresh desktop monitor is accepted and
  leaves the tier \<^verbatim>\<open>'constructor'\<close>, which is none of the four.
\<close>

theorem setQuality_accepts_inherited_name:
  "valid_quality (currentQuality (new_PerformanceMonitor no_options desktop_env 0 0))
   \<and> currentQuality (setQuality ''constructor''
        (new_PerformanceMonitor no_options desktop_env 0 0)) = ''constructor''
   \<and> \<not> valid_quality ''constructor''"
  by code_simp

section \<open>The downgrade rule\<close>

lemma streak_snoc:
  "streak (vs @ [Skipped]) = streak vs"
  "streak (vs @ [Good]) = 0"
  "streak (vs @ [Bad]) = Suc (streak vs)"
  by (simp_all add: streak_def)

lemma verdicts_append:
  "verdicts (es @ [e]) s = verdicts es s @ [event_verdict e (run es s)]"
  by (induction es arbitrary: s) simp_all

lemma rolling_average_slice:
  "length h \<ge> 5 \<Longrightarrow>
   of_int (sum_list (slice_last5 h)) / of_nat (length (slice_last5 h)) = rolling_average h"
  by (simp add: slice_last5_def rolling_average_def)

lemma reduceQuality_count:
  "performanceWarningCount (reduceQuality s) = performanceWarningCount s"
  "options (reduceQuality s) = options s"
  by (simp_all add: reduceQuality_def emitQualityChange_def Let_def)

lemma check_options:
  "options (checkPerformanceThreshold now s) = options s"
  by (simp add: checkPerformanceThreshold_def Let_def reduceQuality_count)

lemma check_count:
  assumes "options s = default_options"
  shows "performanceWarningCount (checkPerformanceThreshold now s) =
     (case check_verdict now s of
        Skipped \<Rightarrow> performanceWarningCount s
      | Good \<Rightarrow> 0
      | Bad \<Rightarrow> (if performanceWarningCount s + 1 \<ge> 3 then 0 else performanceWarningCount s + 1))"
  using assms rolling_average_slice [of "fpsHistory s"]
  by (simp add: checkPerformanceThreshold_def check_verdict_def Let_def default_options_def
      device_threshold_def reduceQuality_count option.map_comp comp_def mult.commute)

lemma check_quality:
  assumes "options s = default_options"
  shows "currentQuality (checkPerformanceThreshold now s) =
     (if check_verdict now s = Bad \<and> performanceWarningCount s + 1 \<ge> 3
      then currentQuality (reduceQuality s) else currentQuality s)"
  using assms rolling_average_slice [of "fpsHistory s"]
  by (simp add: checkPerformanceThreshold_def check_verdict_def Let_def default_options_def
      device_threshold_def reduceQuality_currentQuality option.map_comp comp_def mult.commute)


lemma step_options: "options (step e s) = options s"
proof (cases e)
  case (UpdateMetrics now now')
  then show ?thesis
    by (simp add: updateMetrics_unfold check_options sampled_fields counted_fields)
next
  case (CheckPerformanceThreshold now)
  then show ?thesis by (simp add: check_options)
next
  case (ReducedMotionChange m)
  then show ?thesis
    by (simp add: onReducedMotionChange_def setInitialQuality_def emitQualityChange_def Let_def)
next
  case (SetQuality q)
  then show ?thesis by (simp add: setQuality_def emitQualityChange_def)
qed

lemma run_options: "options (run evs s) = options s"
  by (induction evs arbitrary: s) (simp_all add: step_options)

lemma step_count:
  assumes "options s = default_options"
  shows "performanceWarningCount (step e s) =
     (case event_verdict e s of
        Skipped \<Rightarrow> performanceWarningCount s
      | Good \<Rightarrow> 0
      | Bad \<Rightarrow> (if performanceWarningCount s + 1 \<ge> 3 then 0 else performanceWarningCount s + 1))"
proof (cases e)
  case (UpdateMetrics now now')
  have o: "options (sampled now s) = default_options"
    using assms by (simp add: sampled_fields)
  show ?thesis
    using UpdateMetrics check_count [OF o, of now']
    by (simp add: updateMetrics_unfold sampled_fields counted_fields split: verdict.splits)
next
  case (CheckPerformanceThreshold now)
  then show ?thesis using check_count [OF assms, of now] by simp
next
  case (ReducedMotionChange m)
  then show ?thesis
    by (simp add: onReducedMotionChange_def setInitialQuality_def emitQualityChange_def Let_def)
next
  case (SetQuality q)
  then show ?thesis by (simp add: setQuality_def emitQualityChange_def)
qed

lemma count_is_streak:
  assumes "options s0 = default_options" and "performanceWarningCount s0 = 0"
  shows "performanceWarningCount (run evs s0) = streak (verdicts evs s0) mod 3"
proof (induction evs rule: rev_induct)
  case Nil
  then show ?case using assms by (simp add: streak_def)
next
  case (snoc e es)
  have o: "options (run es s0) = default_options"
    using assms(1) by (simp add: run_options)
  show ?case
  proof (cases "event_verdict e (run es s0)")
    case Skipped
    then show ?thesis
      using snoc step_count [OF o, of e]
      by (simp add: run_append verdicts_append streak_snoc)
  next
    case Good
    then show ?thesis
      using snoc step_count [OF o, of e]
      by (simp add: run_append verdicts_append streak_snoc)
  next
    case Bad
    have "streak (verdicts es s0) mod 3 < 3" by simp
    then show ?thesis
      using Bad snoc step_count [OF o, of e]
      by (auto simp: run_append verdicts_append streak_snoc mod_Suc)
  qed
qed

lemma step_quality:
  assumes "options s = default_options"
    and "currentQuality s = ''high'' \<or> currentQuality s = ''medium''"
    and "performanceWarningCount s < 3"
  shows "currentQuality (checkPerformanceThreshold now s) =
     (if check_verdict now s = Bad \<and> performanceWarningCount s = 2
      then next_lower (currentQuality s) else currentQuality s)"
  using assms check_quality [OF assms(1), of now]
  by (auto simp: reduceQuality_currentQuality next_lower_def)


lemma event_quality:
  assumes "options s = default_options"
    and "currentQuality s = ''high'' \<or> currentQuality s = ''medium''"
    and "performanceWarningCount s < 3"
  shows "currentQuality (checkPerformanceThreshold now s) =
           (if check_verdict now s = Bad \<and> performanceWarningCount s = 2
            then next_lower (currentQuality s) else currentQuality s)"
    and "currentQuality (updateMetrics t t' s) =
           (if event_verdict (UpdateMetrics t t') s = Bad \<and> performanceWarningCount s = 2
            then next_lower (currentQuality s) else currentQuality s)"
proof -
  show "currentQuality (checkPerformanceThreshold now s) =
           (if check_verdict now s = Bad \<and> performanceWarningCount s = 2
            then next_lower (currentQuality s) else currentQuality s)"
    by (rule step_quality [OF assms])
  have "currentQuality (checkPerformanceThreshold t' (sampled t s)) =
           (if check_verdict t' (sampled t s) = Bad \<and> performanceWarningCount (sampled t s) = 2
            then next_lower (currentQuality (sampled t s)) else currentQuality (sampled t s))"
    using assms by (intro step_quality) (simp_all add: sampled_fields)
  then show "currentQuality (updateMetrics t t' s) =
           (if event_verdict (UpdateMetrics t t') s = Bad \<and> performanceWarningCount s = 2
            then next_lower (currentQuality s) else currentQuality s)"
    by (simp add: updateMetrics_unfold sampled_fields counted_fields)
qed

lemma cooldown_skip:
  "options s = default_options \<Longrightarrow> now - lastQualityAdjustment s < 2000 \<Longrightarrow>
   checkPerformanceThreshold now s = s"
  by (simp add: checkPerformanceThreshold_def default_options_def Let_def)

lemma reduceQuality_lastQualityAdjustment:
  "lastQualityAdjustment (reduceQuality s) = lastQualityAdjustment s"
  by (simp add: reduceQuality_def emitQualityChange_def Let_def)

lemma check_lastQualityAdjustment:
  assumes "options s = default_options"
  shows "lastQualityAdjustment (checkPerformanceThreshold now s) =
     (if check_verdict now s = Bad \<and> performanceWarningCount s + 1 \<ge> 3
      then now else lastQualityAdjustment s)"
  using assms rolling_average_slice [of "fpsHistory s"]
  by (simp add: checkPerformanceThreshold_def check_verdict_def Let_def default_options_def
      device_threshold_def option.map_comp comp_def mult.commute)

lemma manual_steps_keep_lastQualityAdjustment:
  "lastQualityAdjustment (onReducedMotionChange b s) = lastQualityAdjustment s"
  "lastQualityAdjustment (setQuality q s) = lastQualityAdjustment s"
  by (simp_all add: onReducedMotionChange_def setInitialQuality_def setQuality_def
      emitQualityChange_def Let_def)

text \<open>
  C1.  Take a monitor with the default options whose warning count is 0 (a fresh one),
  let any session go by, and let the tier then be \<^verbatim>\<open>high\<close> or \<^verbatim>\<open>medium\<close>.  The next
  performance check, called directly or by a frame, lowers the tier exactly when it is
  \<open>Bad\<close> (not skipped, rolling average of the last 5 samples below 80% of the device's
  target) and it is the third of an unbroken run of \<open>Bad\<close> checks, the count starting
  again after each downgrade; it then moves the tier one step down, and otherwise leaves
  the tier as it is.  A check made less than 2 seconds after the last adjustment changes
  nothing.  The time of the last adjustment is the clock reading of the last check that
  lowered the tier: such a check records its reading in \<^verbatim>\<open>lastQualityAdjustment\<close>,
  every other check, a notification and a manual override leave the field as it is; so
  a check made less than 2 seconds after a downgrade changes nothing.
\<close>

theorem downgrade_after_three_bad_checks:
  assumes "options s0 = default_options" and "performanceWarningCount s0 = 0"
    and "currentQuality (run evs s0) = ''high'' \<or> currentQuality (run evs s0) = ''medium''"
  shows
    "currentQuality (run (evs @ [CheckPerformanceThreshold now]) s0) =
       (if check_verdict now (run evs s0) = Bad
           \<and> streak (verdicts (evs @ [CheckPerformanceThreshold now]) s0) mod 3 = 0
        then next_lower (currentQuality (run evs s0)) else currentQuality (run evs s0))
     \<and> currentQuality (run (evs @ [UpdateMetrics t t']) s0) =
       (if event_verdict (UpdateMetrics t t') (run evs s0) = Bad
           \<and> streak (verdicts (evs @ [UpdateMetrics t t']) s0) mod 3 = 0
        then next_lower (currentQuality (run evs s0)) else currentQuality (run evs s0))
     \<and> (c - lastQualityAdjustment (run evs s0) < 2000 \<longrightarrow>
          checkPerformanceThreshold c (run evs s0) = run evs s0)
     \<and> lastQualityAdjustment (run (evs @ [CheckPerformanceThreshold now]) s0) =
       (if check_verdict now (run evs s0) = Bad
           \<and> streak (verdicts (evs @ [CheckPerformanceThreshold now]) s0) mod 3 = 0
        then now else lastQualityAdjustment (run evs s0))
     \<and> lastQualityAdjustment (run (evs @ [UpdateMetrics t t']) s0) =
       (if event_verdict (UpdateMetrics t t') (run evs s0) = Bad
           \<and> streak (verdicts (evs @ [UpdateMetrics t t']) s0) mod 3 = 0
        then t' else lastQualityAdjustment (run evs s0))
     \<and> lastQualityAdjustment (run (evs @ [ReducedMotionChange b]) s0)
         = lastQualityAdjustment (run evs s0)
     \<and> lastQualityAdjustment (run (evs @ [SetQuality q]) s0)
         = lastQualityAdjustment (run evs s0)
     \<and> (check_verdict now (run evs s0) = Bad
           \<and> streak (verdicts (evs @ [CheckPerformanceThreshold now]) s0) mod 3 = 0
           \<and> c' - now < 2000 \<longrightarrow>
          checkPerformanceThreshold c' (run (evs @ [CheckPerformanceThreshold now]) s0)
            = run (evs @ [CheckPerformanceThreshold now]) s0)"
proof -
  let ?s = "run evs s0"
  let ?k = "streak (verdicts evs s0)"
  have o: "options ?s = default_options"
    using assms(1) by (simp add: run_options)
  have k: "performanceWarningCount ?s = ?k mod 3"
    by (rule count_is_streak [OF assms(1,2)])
  have lt: "performanceWarningCount ?s < 3"
    using k by simp
  have two: "(Suc ?k mod 3 = 0) = (performanceWarningCount ?s = 2)"
    using k lt by (auto simp: mod_Suc)
  have three: "(3 \<le> performanceWarningCount ?s + 1) = (performanceWarningCount ?s = 2)"
    using lt by auto
  have a: "currentQuality (run (evs @ [CheckPerformanceThreshold now]) s0) =
       (if check_verdict now ?s = Bad
           \<and> streak (verdicts (evs @ [CheckPerformanceThreshold now]) s0) mod 3 = 0
        then next_lower (currentQuality ?s) else currentQuality ?s)"
    using event_quality(1) [OF o assms(3) lt, of now] two
    by (auto simp: run_append verdicts_append streak_snoc)
  have b: "currentQuality (run (evs @ [UpdateMetrics t t']) s0) =
       (if event_verdict (UpdateMetrics t t') ?s = Bad
           \<and> streak (verdicts (evs @ [UpdateMetrics t t']) s0) mod 3 = 0
        then next_lower (currentQuality ?s) else currentQuality ?s)"
    using event_quality(2) [OF o assms(3) lt, of t t'] two
    by (auto simp: run_append verdicts_append streak_snoc simp del: event_verdict.simps)
  have d: "lastQualityAdjustment (run (evs @ [CheckPerformanceThreshold now]) s0) =
       (if check_verdict now ?s = Bad
           \<and> streak (verdicts (evs @ [CheckPerformanceThreshold now]) s0) mod 3 = 0
        then now else lastQualityAdjustment ?s)"
    using check_lastQualityAdjustment [OF o, of now] two three
    by (auto simp: run_append verdicts_append streak_snoc)
  have os: "options (sampled t ?s) = default_options"
    using o by (simp add: sampled_fields)
  have e: "lastQualityAdjustment (run (evs @ [UpdateMetrics t t']) s0) =
       (if event_verdict (UpdateMetrics t t') ?s = Bad
           \<and> streak (verdicts (evs @ [UpdateMetrics t t']) s0) mod 3 = 0
        then t' else lastQualityAdjustment ?s)"
    using check_lastQualityAdjustment [OF os, of t'] two three
    by (auto simp: run_append verdicts_append streak_snoc updateMetrics_unfold sampled_fields
        counted_fields)
  have f: "lastQualityAdjustment (run (evs @ [ReducedMotionChange b]) s0)
             = lastQualityAdjustment ?s"
    "lastQualityAdjustment (run (evs @ [SetQuality q]) s0) = lastQualityAdjustment ?s"
    by (simp_all add: run_append manual_steps_keep_lastQualityAdjustment)
  have o': "options (run (evs @ [CheckPerformanceThreshold now]) s0) = default_options"
    using assms(1) by (simp add: run_options)
  have g: "check_verdict now ?s = Bad
           \<and> streak (verdicts (evs @ [CheckPerformanceThreshold now]) s0) mod 3 = 0
           \<and> c' - now < 2000 \<longrightarrow>
          checkPerformanceThreshold c' (run (evs @ [CheckPerformanceThreshold now]) s0)
            = run (evs @ [CheckPerformanceThreshold now]) s0"
    using cooldown_skip [OF o', of c'] d by simp
  show ?thesis
    using a b d e f g cooldown_skip [OF o, of c] by blast
qed

theorem downgrade_after_three_bad_checks_witness:
  "currentQuality
     (run (slow_frames 6 0 @ [CheckPerformanceThreshold 7000])
        (new_PerformanceMonitor no_options desktop_env 0 0)) = ''medium''
   \<and> currentQuality
     (run (slow_frames 6 0 @ [UpdateMetrics 7000 7000])
        (new_PerformanceMonitor no_options desktop_env 0 0)) = ''medium''
   \<and> checkPerformanceThreshold 1000
       (run (slow_frames 6 0) (new_PerformanceMonitor no_options desktop_env 0 0))
     = run (slow_frames 6 0) (new_PerformanceMonitor no_options desktop_env 0 0)
   \<and> lastQualityAdjustment
       (run (slow_frames 6 0 @ [CheckPerformanceThreshold 7000])
          (new_PerformanceMonitor no_options desktop_env 0 0)) = 7000
   \<and> lastQualityAdjustment
       (run (slow_frames 6 0 @ [UpdateMetrics 7000 7000])
          (new_PerformanceMonitor no_options desktop_env 0 0)) = 7000
   \<and> lastQualityAdjustment
       (run (slow_frames 6 0 @ [ReducedMotionChange True])
          (new_PerformanceMonitor no_options desktop_env 0 0)) = 0
   \<and> lastQualityAdjustment
       (run (slow_frames 6 0 @ [SetQuality ''low''])
          (new_PerformanceMonitor no_options desktop_env 0 0)) = 0
   \<and> checkPerformanceThreshold 8000
       (run (slow_frames 6 0 @ [CheckPerformanceThreshold 7000])
          (new_PerformanceMonitor no_options desktop_env 0 0))
     = run (slow_frames 6 0 @ [CheckPerformanceThreshold 7000])
         (new_PerformanceMonitor no_options desktop_env 0 0)"
proof -
  let ?m = "new_PerformanceMonitor no_options desktop_env 0 0"
  have h1: "options ?m = default_options"
    by (simp add: new_PerformanceMonitor_def setInitialQuality_def merge_options_def
        no_options_def default_options_def)
  have h2: "performanceWarningCount ?m = 0"
    by (simp add: new_PerformanceMonitor_def setInitialQuality_def)
  have q: "currentQuality (run (slow_frames 6 0) ?m) = ''high''"
    by code_simp
  have h3: "currentQuality (run (slow_frames 6 0) ?m) = ''high''
            \<or> currentQuality (run (slow_frames 6 0) ?m) = ''medium''"
    using q by simp
  have v1: "check_verdict 7000 (run (slow_frames 6 0) ?m) = Bad"
    by code_simp
  have v2: "event_verdict (UpdateMetrics 7000 7000) (run (slow_frames 6 0) ?m) = Bad"
    by code_simp
  have k1: "streak (verdicts (slow_frames 6 0 @ [CheckPerformanceThreshold 7000]) ?m) mod 3 = 0"
    by code_simp
  have k2: "streak (verdicts (slow_frames 6 0 @ [UpdateMetrics 7000 7000]) ?m) mod 3 = 0"
    by code_simp
  have l: "lastQualityAdjustment (run (slow_frames 6 0) ?m) = 0"
    by code_simp
  have n: "next_lower ''high'' = ''medium''"
    by (simp add: next_lower_def)
  show ?thesis
    using downgrade_after_three_bad_checks [OF h1 h2 h3, where now = 7000 and t = 7000 and t' = 7000 and c = 1000
        and c' = 8000 and b = True and q = "''low''"] v1 v2 k1 k2 l q n
    by (simp del: event_verdict.simps)
qed

section \<open>Device classification is one function\<close>

lemma detectDeviceType_examples:
  "PerformanceMonitor_detectDeviceType (userAgent desktop_env) (innerWidth desktop_env)
     = ''desktop''"
  "PerformanceMonitor_detectDeviceType (userAgent tablet_env) (innerWidth tablet_env)
     = ''tablet''"
  "PerformanceMonitor_detectDeviceType (userAgent phone_env) (innerWidth phone_env)
     = ''mobile''"
  "PerformanceMonitor_detectDeviceType ''Mozilla/5.0 (Linux; Android 13; Tab)'' 1280
     = ''tablet''"
  "PerformanceMonitor_detectDeviceType ''Mozilla/5.0 (X11; Linux x86_64)'' 800 = ''tablet''"
  by code_simp+

text \<open>
  C7.  For every user-agent string and viewport width \<^verbatim>\<open>detectDeviceType\<close> returns
  one of \<^verbatim>\<open>desktop\<close>, \<^verbatim>\<open>tablet\<close>, \<^verbatim>\<open>mobile\<close>; it reads nothing else; and the method of
  \<^verbatim>\<open>AnimationManager\<close> and the method of \<^verbatim>\<open>PerformanceMonitor\<close> are the same function.
\<close>

theorem detectDeviceType_total_and_shared:
  "PerformanceMonitor_detectDeviceType ua width \<in> {''desktop'', ''tablet'', ''mobile''}
   \<and> AnimationManager_detectDeviceType ua width = PerformanceMonitor_detectDeviceType ua width"
  by (simp add: PerformanceMonitor_detectDeviceType_def AnimationManager_detectDeviceType_def
      Let_def)

section \<open>The particle loop\<close>

lemma length_floating_movement [simp]: "length (floating_movement vel i3 p) = length p"
  by (simp add: floating_movement_def Let_def)

lemma length_mouse_interaction [simp]: "length (mouse_interaction mi m i3 p) = length p"
  by (simp add: mouse_interaction_def Let_def split: prod.splits)

lemma length_boundary_wrapping [simp]: "length (boundary_wrapping i3 p) = length p"
  by (simp add: boundary_wrapping_def Let_def)

lemma length_update_particle [simp]: "length (update_particle s i p) = length p"
  by (simp add: update_particle_def Let_def)

lemma floating_movement_other:
  "k \<noteq> i3 \<Longrightarrow> k \<noteq> i3 + 1 \<Longrightarrow> k \<noteq> i3 + 2 \<Longrightarrow> floating_movement vel i3 p ! k = p ! k"
  by (simp add: floating_movement_def Let_def)

lemma mouse_interaction_other:
  "k \<noteq> i3 \<Longrightarrow> k \<noteq> i3 + 1 \<Longrightarrow> mouse_interaction mi m i3 p ! k = p ! k"
  by (simp add: mouse_interaction_def Let_def split: prod.splits)

lemma boundary_wrapping_other:
  "k \<noteq> i3 \<Longrightarrow> k \<noteq> i3 + 1 \<Longrightarrow> k \<noteq> i3 + 2 \<Longrightarrow> boundary_wrapping i3 p ! k = p ! k"
  by (simp add: boundary_wrapping_def Let_def)

lemma update_particle_other:
  "k \<noteq> j * 3 \<Longrightarrow> k \<noteq> j * 3 + 1 \<Longrightarrow> k \<noteq> j * 3 + 2 \<Longrightarrow> update_particle s j p ! k = p ! k"
  by (simp add: update_particle_def Let_def floating_movement_other mouse_interaction_other
      boundary_wrapping_other)

lemma fold_update_particle_other:
  "list_all (\<lambda>j. k \<noteq> j * 3 \<and> k \<noteq> j * 3 + 1 \<and> k \<noteq> j * 3 + 2) js \<Longrightarrow>
   fold (update_particle s) js p ! k = p ! k"
  by (induction js arbitrary: p) (simp_all add: update_particle_other)

lemma length_fold_update_particle [simp]:
  "length (fold (update_particle s) js p) = length p"
  by (induction js arbitrary: p) simp_all

lemma boundary_wrapping_nan:
  "i3 < length p \<Longrightarrow> p ! i3 = NaN \<Longrightarrow> boundary_wrapping i3 p ! i3 = NaN"
  by (simp add: boundary_wrapping_def Let_def read_def)

lemma mouse_at_particle:
  assumes "i3 + 1 < length p" and "p ! i3 = Num x" and "p ! (i3 + 1) = Num y"
    and "m = (Num mx, Num my)" and "x = mx * 10" and "y = my * 10"
  shows "mouse_distance m i3 p = Num 0" and "mouse_interaction mi m i3 p ! i3 = NaN"
  using assms
  by (simp_all add: mouse_distance_def mouse_interaction_def mouse_offset_def Let_def read_def
      js_sub_def)


lemma floating_movement_xy:
  assumes "i3 + 1 < length p" and "i3 + 1 < length vel"
    and "p ! i3 = Num x" and "p ! (i3 + 1) = Num y"
    and "vel ! i3 = Num vx" and "vel ! (i3 + 1) = Num vy"
  shows "floating_movement vel i3 p ! i3 = Num (x + vx)"
    and "floating_movement vel i3 p ! (i3 + 1) = Num (y + vy)"
  using assms by (simp_all add: floating_movement_def Let_def read_def)

lemma update_particle_nan:
  assumes "i * 3 + 1 < length p" and "i * 3 + 1 < length (velocities s)"
    and "p ! (i * 3) = Num x" and "p ! (i * 3 + 1) = Num y"
    and "velocities s ! (i * 3) = Num vx" and "velocities s ! (i * 3 + 1) = Num vy"
    and "mousePosition s = (Num mx, Num my)"
    and "x + vx = mx * 10" and "y + vy = my * 10"
  shows "update_particle s i p ! (i * 3) = NaN"
proof -
  let ?q = "floating_movement (velocities s) (i * 3) p"
  have q: "?q ! (i * 3) = Num (x + vx)" "?q ! (i * 3 + 1) = Num (y + vy)"
    using floating_movement_xy [OF assms(1,2,3,4,5,6)] by simp_all
  have len: "i * 3 + 1 < length ?q"
    using assms(1) by simp
  have "mouse_interaction (mouseInfluence (config s)) (mousePosition s) (i * 3) ?q ! (i * 3) = NaN"
    by (rule mouse_at_particle(2) [OF len q assms(7,8,9)])
  then show ?thesis
    using assms(1)
    by (simp add: update_particle_def Let_def boundary_wrapping_nan)
qed

lemma upt_split: "i < n \<Longrightarrow> [0..<n] = [0..<i] @ i # [Suc i..<n]"
  using upt_add_eq_append [of 0 i "n - i"] by (simp add: upt_conv_Cons)

lemma fold_update_particle_nan:
  assumes "i < n" and "i * 3 + 1 < length p" and "i * 3 + 1 < length (velocities s)"
    and "p ! (i * 3) = Num x" and "p ! (i * 3 + 1) = Num y"
    and "velocities s ! (i * 3) = Num vx" and "velocities s ! (i * 3 + 1) = Num vy"
    and "mousePosition s = (Num mx, Num my)"
    and "x + vx = mx * 10" and "y + vy = my * 10"
  shows "fold (update_particle s) [0..<n] p ! (i * 3) = NaN"
proof -
  let ?q = "fold (update_particle s) [0..<i] p"
  have before: "list_all (\<lambda>j. k \<noteq> j * 3 \<and> k \<noteq> j * 3 + 1 \<and> k \<noteq> j * 3 + 2) [0..<i]"
    if "k = i * 3 \<or> k = i * 3 + 1" for k
    using that by (auto simp: list_all_iff, presburger+)
  have after: "list_all (\<lambda>j. i * 3 \<noteq> j * 3 \<and> i * 3 \<noteq> j * 3 + 1 \<and> i * 3 \<noteq> j * 3 + 2)
      [Suc i..<n]"
    by (auto simp: list_all_iff)
  have q: "?q ! (i * 3) = Num x" "?q ! (i * 3 + 1) = Num y"
    using fold_update_particle_other [OF before, of "i * 3" s p]
      fold_update_particle_other [OF before, of "i * 3 + 1" s p] assms(4,5)
    by simp_all
  have len: "i * 3 + 1 < length ?q"
    using assms(2) by simp
  have r: "update_particle s i ?q ! (i * 3) = NaN"
    by (rule update_particle_nan [OF len assms(3) q assms(6,7,8,9,10)])
  have "fold (update_particle s) [0..<n] p
          = fold (update_particle s) [Suc i..<n] (update_particle s i ?q)"
    using upt_split [OF assms(1)] by simp
  then show ?thesis
    using fold_update_particle_other [OF after, of s "update_particle s i ?q"] r by simp
qed


lemma length_concat_triples:
  "(\<And>i. length (f i) = 3) \<Longrightarrow> length (concat (map f [0..<n])) = n * 3"
  by (induction n) simp_all

lemma nth_concat_triples:
  assumes "\<And>i. length (f i) = 3" and "i < n" and "k < 3"
  shows "concat (map f [0..<n]) ! (i * 3 + k) = f i ! k"
  using assms(2)
proof (induction n)
  case 0
  then show ?case by simp
next
  case (Suc n)
  have len: "length (concat (map f [0..<n])) = n * 3"
    by (rule length_concat_triples [OF assms(1)])
  show ?case
  proof (cases "i < n")
    case True
    then have "i * 3 + k < n * 3" using assms(3) by simp
    then show ?thesis using Suc.IH [OF True] len by (simp add: nth_append)
  next
    case False
    then have "i = n" using Suc.prems by simp
    then show ?thesis using len by (simp add: nth_append)
  qed
qed

lemma initial_positions_facts:
  "length (initial_positions cfg d) = particleCount cfg * 3"
  "i < particleCount cfg \<Longrightarrow>
     initial_positions cfg d ! (i * 3) = Num ((d (8 * i) - 1 / 2) * 20)"
  "i < particleCount cfg \<Longrightarrow>
     initial_positions cfg d ! (i * 3 + 1) = Num ((d (8 * i + 1) - 1 / 2) * 20)"
  "i < particleCount cfg \<Longrightarrow>
     initial_positions cfg d ! (i * 3 + 2) = Num ((d (8 * i + 2) - 1 / 2) * 10)"
proof -
  let ?f = "\<lambda>i. [Num ((d (8 * i) - 1 / 2) * 20), Num ((d (8 * i + 1) - 1 / 2) * 20),
                   Num ((d (8 * i + 2) - 1 / 2) * 10)]"
  have l: "\<And>i. length (?f i) = 3" by simp
  show "length (initial_positions cfg d) = particleCount cfg * 3"
    unfolding initial_positions_def by (rule length_concat_triples [OF l])
  show "i < particleCount cfg \<Longrightarrow>
     initial_positions cfg d ! (i * 3) = Num ((d (8 * i) - 1 / 2) * 20)"
    unfolding initial_positions_def using nth_concat_triples [OF l, of i _ 0] by simp
  show "i < particleCount cfg \<Longrightarrow>
     initial_positions cfg d ! (i * 3 + 1) = Num ((d (8 * i + 1) - 1 / 2) * 20)"
    unfolding initial_positions_def using nth_concat_triples [OF l, of i _ 1] by simp
  show "i < particleCount cfg \<Longrightarrow>
     initial_positions cfg d ! (i * 3 + 2) = Num ((d (8 * i + 2) - 1 / 2) * 10)"
    unfolding initial_positions_def using nth_concat_triples [OF l, of i _ 2] by simp
qed

lemma initial_velocities_facts:
  "length (initial_velocities cfg d) = particleCount cfg * 3"
  "i < particleCount cfg \<Longrightarrow>
     initial_velocities cfg d ! (i * 3) = Num ((d (8 * i + 3) - 1 / 2) * speed_max cfg)"
  "i < particleCount cfg \<Longrightarrow>
     initial_velocities cfg d ! (i * 3 + 1) = Num ((d (8 * i + 4) - 1 / 2) * speed_max cfg)"
proof -
  let ?f = "\<lambda>i. [Num ((d (8 * i + 3) - 1 / 2) * speed_max cfg),
                   Num ((d (8 * i + 4) - 1 / 2) * speed_max cfg),
                   Num ((d (8 * i + 5) - 1 / 2) * speed_max cfg)]"
  have l: "\<And>i. length (?f i) = 3" by simp
  show "length (initial_velocities cfg d) = particleCount cfg * 3"
    unfolding initial_velocities_def by (rule length_concat_triples [OF l])
  show "i < particleCount cfg \<Longrightarrow>
     initial_velocities cfg d ! (i * 3) = Num ((d (8 * i + 3) - 1 / 2) * speed_max cfg)"
    unfolding initial_velocities_def using nth_concat_triples [OF l, of i _ 0] by simp
  show "i < particleCount cfg \<Longrightarrow>
     initial_velocities cfg d ! (i * 3 + 1) = Num ((d (8 * i + 4) - 1 / 2) * speed_max cfg)"
    unfolding initial_velocities_def using nth_concat_triples [OF l, of i _ 1] by simp
qed

lemma initial_finite:
  "list_all finite_num (initial_positions cfg d)"
  "list_all finite_num (initial_velocities cfg d)"
  by (auto simp: initial_positions_def initial_velocities_def list_all_iff finite_num_def)

lemma first_particle_nan:
  assumes "d 0 = 1 / 2" "d 1 = 1 / 2" "d 3 = 1 / 2" "d 4 = 1 / 2"
    and n: "0 < particleCount (getDeviceConfig dev)"
  shows "positions_of (update dt (new_ParticleSystem dev d)) ! 0 = NaN"
proof -
  let ?s = "new_ParticleSystem dev d"
  let ?cfg = "getDeviceConfig dev"
  have s: "positions ?s = Some (initial_positions ?cfg d)" "geometry ?s"
    "velocities ?s = initial_velocities ?cfg d" "mousePosition ?s = (Num 0, Num 0)"
    "config ?s = ?cfg"
    by (simp_all add: new_ParticleSystem_def)
  have lp: "0 * 3 + 1 < length (initial_positions ?cfg d)"
    using n by (simp add: initial_positions_facts)
  have lv: "0 * 3 + 1 < length (velocities ?s)"
    using n by (simp add: s initial_velocities_facts)
  have p: "initial_positions ?cfg d ! (0 * 3) = Num 0"
    "initial_positions ?cfg d ! (0 * 3 + 1) = Num 0"
    using initial_positions_facts(2,3) [OF n, of d] assms by simp_all
  have v: "velocities ?s ! (0 * 3) = Num 0" "velocities ?s ! (0 * 3 + 1) = Num 0"
    using initial_velocities_facts(2,3) [OF n, of d] assms by (simp_all add: s)
  have "fold (update_particle ?s) [0..<particleCount ?cfg] (initial_positions ?cfg d) ! (0 * 3)
          = NaN"
    by (rule fold_update_particle_nan [OF n lp lv p v s(4)]) simp_all
  then show ?thesis
    by (simp add: update_def positions_of_def s)
qed

lemma boundary_wrapping_bounds:
  assumes "i3 < length p" and "p ! i3 \<noteq> NaN"
  shows "in_range (- 10) 10 (boundary_wrapping i3 p ! i3)"
  using assms
  by (cases "p ! i3") (auto simp: boundary_wrapping_def Let_def read_def in_range_def)

text \<open>
  C8 on the code.  A mobile system whose first particle was drawn at the centre with no
  velocity, the mouse not yet moved (position \<open>(0, 0)\<close>): when \<^verbatim>\<open>update\<close> reaches the
  first particle its distance to the mouse is \<open>0\<close>, the branch \<^verbatim>\<open>distance < 3\<close> is
  taken, the division is \<open>0 / 0\<close>, and the x coordinate it stores is \<^verbatim>\<open>NaN\<close>.
\<close>

theorem particle_at_mouse_divides_by_zero:
  "mouse_distance (mousePosition (new_ParticleSystem ''mobile'' centre_draws)) 0
     (floating_movement (velocities (new_ParticleSystem ''mobile'' centre_draws)) 0
        (positions_of (new_ParticleSystem ''mobile'' centre_draws))) = Num 0
   \<and> js_lt (Num 0) (Num 3)
   \<and> read (positions_of (update (Num (2 / 125)) (new_ParticleSystem ''mobile'' centre_draws))) 0
       = NaN"
proof -
  let ?s = "new_ParticleSystem ''mobile'' centre_draws"
  let ?cfg = "getDeviceConfig ''mobile''"
  have n: "0 < particleCount ?cfg"
    by (simp add: getDeviceConfig_def object_prototype_keys_def)
  have s: "positions_of ?s = initial_positions ?cfg centre_draws"
    "velocities ?s = initial_velocities ?cfg centre_draws" "mousePosition ?s = (Num 0, Num 0)"
    by (simp_all add: new_ParticleSystem_def positions_of_def)
  have lp: "0 + 1 < length (initial_positions ?cfg centre_draws)"
    using n by (simp add: initial_positions_facts)
  have lv: "0 + 1 < length (initial_velocities ?cfg centre_draws)"
    using n by (simp add: initial_velocities_facts)
  have p: "initial_positions ?cfg centre_draws ! 0 = Num 0"
    "initial_positions ?cfg centre_draws ! (0 + 1) = Num 0"
    using initial_positions_facts(2,3) [OF n, of centre_draws] by (simp_all add: centre_draws_def)
  have v: "initial_velocities ?cfg centre_draws ! 0 = Num 0"
    "initial_velocities ?cfg centre_draws ! (0 + 1) = Num 0"
    using initial_velocities_facts(2,3) [OF n, of centre_draws] by (simp_all add: centre_draws_def)
  let ?q = "floating_movement (initial_velocities ?cfg centre_draws) 0
              (initial_positions ?cfg centre_draws)"
  have q: "?q ! 0 = Num (0 + 0)" "?q ! (0 + 1) = Num (0 + 0)"
    using floating_movement_xy [OF lp lv p v] by simp_all
  have lq: "0 + 1 < length ?q" using lp by simp
  have d: "mouse_distance (Num 0, Num 0) 0 ?q = Num 0"
    by (rule mouse_at_particle(1) [OF lq q]) simp_all
  have len: "0 < length (positions_of (update (Num (2 / 125)) ?s))"
    using n by (simp add: update_def positions_of_def new_ParticleSystem_def
        initial_positions_facts)
  have "positions_of (update (Num (2 / 125)) ?s) ! 0 = NaN"
    by (rule first_particle_nan) (simp_all add: centre_draws_def n)
  then show ?thesis
    using d len by (simp add: s read_def)
qed

text \<open>
  C9 on the code.  A desktop system with every coordinate and velocity finite and the
  first particle within the bounds: after one \<^verbatim>\<open>update\<close> the first particle is
  outside them, its x coordinate being \<^verbatim>\<open>NaN\<close>, which the boundary wrapping does
  not catch (a coordinate that is not \<^verbatim>\<open>NaN\<close> it does bring into the range).
\<close>

theorem particle_at_mouse_leaves_bounds:
  "list_all finite_num (positions_of (new_ParticleSystem ''desktop'' centre_draws))
   \<and> list_all finite_num (velocities (new_ParticleSystem ''desktop'' centre_draws))
   \<and> within_bounds (positions_of (new_ParticleSystem ''desktop'' centre_draws)) 0
   \<and> \<not> within_bounds
        (positions_of (update (Num (2 / 125)) (new_ParticleSystem ''desktop'' centre_draws))) 0"
proof -
  let ?s = "new_ParticleSystem ''desktop'' centre_draws"
  let ?cfg = "getDeviceConfig ''desktop''"
  have n: "0 < particleCount ?cfg"
    by (simp add: getDeviceConfig_def object_prototype_keys_def)
  have s: "positions_of ?s = initial_positions ?cfg centre_draws"
    "velocities ?s = initial_velocities ?cfg centre_draws"
    by (simp_all add: new_ParticleSystem_def positions_of_def)
  have p: "initial_positions ?cfg centre_draws ! 0 = Num 0"
    "initial_positions ?cfg centre_draws ! Suc 0 = Num 0"
    "initial_positions ?cfg centre_draws ! Suc (Suc 0) = Num 0"
    using initial_positions_facts(2,3,4) [OF n, of centre_draws]
    by (simp_all add: centre_draws_def eval_nat_numeral)
  have l: "length (initial_positions ?cfg centre_draws) = 6000"
    by (simp add: initial_positions_facts getDeviceConfig_def object_prototype_keys_def)
  have before: "within_bounds (positions_of ?s) 0"
    using p l by (simp add: s within_bounds_def read_def in_range_def)
  have len: "0 < length (positions_of (update (Num (2 / 125)) ?s))"
    using n by (simp add: update_def positions_of_def new_ParticleSystem_def
        initial_positions_facts)
  have "positions_of (update (Num (2 / 125)) ?s) ! 0 = NaN"
    by (rule first_particle_nan) (simp_all add: centre_draws_def n)
  then have after: "\<not> within_bounds (positions_of (update (Num (2 / 125)) ?s)) 0"
    using len by (simp add: within_bounds_def read_def in_range_def)
  show ?thesis
    using before after initial_finite [of ?cfg centre_draws] by (simp add: s)
qed

section \<open>Starting the animation loop\<close>

lemma animate_flags:
  "isInitialized (snd (animate f m)) = isInitialized m"
  "isRunning (snd (animate f m)) = isRunning m"
  by (simp_all add: animate_def Let_def updatePerformanceMetrics_def split: option.splits)

lemma init_flags:
  "isRunning (snd (init ie m)) = isRunning m"
  "isInitialized m \<Longrightarrow> isInitialized (snd (init ie m))"
  by (simp_all add: init_def Let_def split: option.splits)

lemma running_is_initialized:
  "reachable m \<Longrightarrow> isRunning m \<Longrightarrow> isInitialized m"
proof (induction rule: reachable.induct)
  case (constructed cv monitoring e t)
  then show ?case by (simp add: new_AnimationManager_def)
next
  case (after_init m ie)
  then show ?case by (simp add: init_flags)
next
  case (after_start m f)
  then show ?case by (auto simp: start_def Let_def animate_flags split: if_splits)
next
  case (after_animate m f)
  then show ?case by (simp add: animate_flags)
next
  case (after_stop m)
  then show ?case by (simp add: stop_def Let_def split: option.splits)
next
  case (after_dispose m)
  then show ?case by (simp add: dispose_def stop_def Let_def split: option.splits)
qed

text \<open>
  C10.  On every manager a program can get to: when \<^verbatim>\<open>isInitialized\<close> is false,
  \<^verbatim>\<open>start\<close> returns \<^verbatim>\<open>false\<close> and \<^verbatim>\<open>isRunning\<close> is false afterwards; when the manager
  is already running, \<^verbatim>\<open>start\<close> returns \<^verbatim>\<open>true\<close> and the manager is unchanged.
\<close>

theorem start_guards:
  assumes "reachable m"
  shows "(\<not> isInitialized m \<longrightarrow>
            fst (start f m) = Returned False \<and> \<not> isRunning (snd (start f m)))
         \<and> (isRunning m \<longrightarrow> start f m = (Returned True, m))"
  using running_is_initialized [OF assms]
  by (auto simp: start_def)

theorem start_guards_witness:
  "fst (start first_frame (new_AnimationManager False True desktop_env 0)) = Returned False
   \<and> \<not> isRunning (snd (start first_frame (new_AnimationManager False True desktop_env 0)))
   \<and> start first_frame
        (snd (start first_frame
           (snd (init desktop_init (new_AnimationManager False True desktop_env 0)))))
       = (Returned True,
          snd (start first_frame
            (snd (init desktop_init (new_AnimationManager False True desktop_env 0)))))"
proof -
  let ?m0 = "new_AnimationManager False True desktop_env 0"
  let ?m1 = "snd (start first_frame (snd (init desktop_init ?m0)))"
  have r0: "reachable ?m0"
    by (rule reachable.constructed)
  have r1: "reachable ?m1"
    by (intro reachable.after_start reachable.after_init reachable.constructed)
  have n0: "\<not> isInitialized ?m0"
    by (simp add: new_AnimationManager_def)
  have i1: "isInitialized (snd (init desktop_init ?m0))"
    by code_simp
  have run: "isRunning ?m1"
    using i1 by (simp add: start_def Let_def animate_flags)
  show ?thesis
    using start_guards [OF r0, of first_frame] start_guards [OF r1, of first_frame] n0 run
    by blast
qed

end
